theory Spec2Isabelle
  imports Complex_Main
begin

section \<open>Parsed JSON values and the Python operations the scripts apply to them\<close>

text \<open>
  The scripts work on what \<^verbatim>\<open>resp.json()\<close> returns: Python values built from
  \<^verbatim>\<open>None\<close>, booleans, numbers, strings, lists and dicts. A dict is kept as the list
  of its items; a lookup takes the first item with the key. Numbers are exact
  rationals: the extraction code only tests them for truth and passes them on.
\<close>

datatype json =
    JNull
  | JBool bool
  | JNum rat
  | JStr string
  | JArr "json list"
  | JObj "(string \<times> json) list"

datatype py_error =
    AttributeError
  | TypeError
  | ValueError
  | UnboundLocalError
  | ConnectionError
  | HTTPError
  | JSONDecodeError
  | IndexError
  | OutOfBoundsTimedelta
  | OutOfBoundsDatetime

text \<open>Sequencing of steps that may raise: the first exception ends the computation.\<close>

definition ebind :: "py_error + 'a \<Rightarrow> ('a \<Rightarrow> py_error + 'b) \<Rightarrow> py_error + 'b" where
  "ebind m f = (case m of Inl e \<Rightarrow> Inl e | Inr v \<Rightarrow> f v)"

text \<open>A \<^verbatim>\<open>for\<close> loop whose body updates a state and may raise.\<close>

fun for_each :: "('a \<Rightarrow> 's \<Rightarrow> py_error + 's) \<Rightarrow> 'a list \<Rightarrow> 's \<Rightarrow> py_error + 's" where
  "for_each body [] s = Inr s"
| "for_each body (x # xs) s =
     (case body x s of Inl e \<Rightarrow> Inl e | Inr s' \<Rightarrow> for_each body xs s')"

text \<open>A list comprehension whose element expression may raise.\<close>

fun map_err :: "('a \<Rightarrow> py_error + 'b) \<Rightarrow> 'a list \<Rightarrow> py_error + 'b list" where
  "map_err f [] = Inr []"
| "map_err f (x # xs) =
     (case f x of Inl e \<Rightarrow> Inl e
      | Inr y \<Rightarrow> (case map_err f xs of Inl e \<Rightarrow> Inl e | Inr ys \<Rightarrow> Inr (y # ys)))"

text \<open>Python truth value of a parsed JSON value, and \<^verbatim>\<open>a or b\<close>.\<close>

fun truthy :: "json \<Rightarrow> bool" where
  "truthy JNull = False"
| "truthy (JBool b) = b"
| "truthy (JNum n) = (n \<noteq> 0)"
| "truthy (JStr s) = (s \<noteq> [])"
| "truthy (JArr xs) = (xs \<noteq> [])"
| "truthy (JObj kv) = (kv \<noteq> [])"

definition py_or :: "json \<Rightarrow> json \<Rightarrow> json" where
  "py_or a b = (if truthy a then a else b)"

text \<open>
  \<^verbatim>\<open>d.get(k, default)\<close>: only a dict has the method; on every other value the
  attribute access raises AttributeError. \<^verbatim>\<open>d.get(k)\<close> is \<open>dict_get d k JNull\<close>.
\<close>

fun dict_get :: "json \<Rightarrow> string \<Rightarrow> json \<Rightarrow> py_error + json" where
  "dict_get (JObj kv) k d = Inr (case map_of kv k of Some v \<Rightarrow> v | None \<Rightarrow> d)"
| "dict_get _ k d = Inl AttributeError"

text \<open>
  \<^verbatim>\<open>for x in v\<close>: a list yields its elements, a string its characters, a dict its
  keys; \<^verbatim>\<open>None\<close>, booleans and numbers are not iterable.
\<close>

fun py_iter :: "json \<Rightarrow> py_error + json list" where
  "py_iter (JArr xs) = Inr xs"
| "py_iter (JStr s) = Inr (map (\<lambda>c. JStr [c]) s)"
| "py_iter (JObj kv) = Inr (map (\<lambda>p. JStr (fst p)) kv)"
| "py_iter _ = Inl TypeError"

text \<open>\<^verbatim>\<open>sep.join(items)\<close>: every item must be a string.\<close>

fun as_str :: "json \<Rightarrow> py_error + string" where
  "as_str (JStr s) = Inr s"
| "as_str _ = Inl TypeError"

fun join :: "string \<Rightarrow> string list \<Rightarrow> string" where
  "join sep [] = []"
| "join sep [x] = x"
| "join sep (x # y # ys) = x @ sep @ join sep (y # ys)"

text \<open>\<^verbatim>\<open>s.split(sep)\<close> for a one-character separator; the result is never empty.\<close>

fun split :: "char \<Rightarrow> string \<Rightarrow> string list" where
  "split sep [] = [[]]"
| "split sep (c # cs) =
     (if c = sep then [] # split sep cs
      else (case split sep cs of [] \<Rightarrow> [[c]] | w # ws \<Rightarrow> (c # w) # ws))"

section \<open>The enhanced extractor (Api_test.py, api_test_expanded_list.py)\<close>

record enhanced_record =
  documentType :: json
  footnotes :: string
  remarks :: json
  officerTitle :: json
  otherText :: json
  transactionCategory :: string
  securityTitle :: json
  transactionDate :: json
  transactionCode :: json
  equitySwapInvolved :: json
  shares :: json
  pricePerShare :: json
  sharesOwnedFollowingTransaction :: json

text \<open>The values computed once per filing group, before its transactions are read.\<close>

record group_meta =
  doc_type :: json
  footnotes_text :: string
  remarks_val :: json
  officer_title :: json
  other_text :: json

text \<open>
  \<^verbatim>\<open>footnotes_list = grp.get("footnotes", []) or []\<close>
  \<^verbatim>\<open>footnotes_text = "; ".join([fn.get("text", "") for fn in footnotes_list])\<close>
\<close>

definition footnotes_of :: "json \<Rightarrow> py_error + string" where
  "footnotes_of grp =
     ebind (dict_get grp ''footnotes'' (JArr [])) (\<lambda>fl.
     ebind (py_iter (py_or fl (JArr []))) (\<lambda>footnotes_list.
     ebind (map_err (\<lambda>fn. dict_get fn ''text'' (JStr [])) footnotes_list) (\<lambda>texts.
     ebind (map_err as_str texts) (\<lambda>strs.
     Inr (join ''; '' strs)))))"

definition meta_of :: "json \<Rightarrow> py_error + group_meta" where
  "meta_of grp =
     ebind (dict_get grp ''documentType'' JNull) (\<lambda>dt.
     ebind (footnotes_of grp) (\<lambda>ft.
     ebind (dict_get grp ''remarks'' JNull) (\<lambda>rm.
     ebind (dict_get grp ''reportingOwner'' (JObj [])) (\<lambda>ro.
     ebind (dict_get ro ''relationship'' (JObj [])) (\<lambda>rel0.
     ebind (dict_get (py_or rel0 (JObj [])) ''officerTitle'' JNull) (\<lambda>ot.
     ebind (dict_get (py_or rel0 (JObj [])) ''otherText'' JNull) (\<lambda>ox.
     Inr \<lparr>doc_type = dt, footnotes_text = ft, remarks_val = rm,
          officer_title = ot, other_text = ox\<rparr>)))))))"

text \<open>The inner helper \<^verbatim>\<open>extract(tx, category)\<close>, with the captured group values explicit
  (\<open>extract\<close> is a reserved word of the theory language, hence the suffix).\<close>

definition extract_tx :: "group_meta \<Rightarrow> string \<Rightarrow> json \<Rightarrow> py_error + enhanced_record" where
  "extract_tx m category tx =
     ebind (dict_get tx ''coding'' (JObj [])) (\<lambda>c0.
     ebind (dict_get tx ''amounts'' (JObj [])) (\<lambda>a0.
     ebind (dict_get tx ''postTransactionAmounts'' (JObj [])) (\<lambda>p0.
     ebind (dict_get tx ''securityTitle'' JNull) (\<lambda>st.
     ebind (dict_get tx ''transactionDate'' JNull) (\<lambda>td.
     ebind (dict_get (py_or c0 (JObj [])) ''code'' JNull) (\<lambda>code.
     ebind (dict_get (py_or c0 (JObj [])) ''equitySwapInvolved'' JNull) (\<lambda>es.
     ebind (dict_get (py_or a0 (JObj [])) ''shares'' JNull) (\<lambda>sh.
     ebind (dict_get (py_or a0 (JObj [])) ''pricePerShare'' JNull) (\<lambda>pps.
     ebind (dict_get (py_or p0 (JObj [])) ''sharesOwnedFollowingTransaction'' JNull) (\<lambda>so.
     Inr \<lparr>documentType = doc_type m, footnotes = footnotes_text m,
          remarks = remarks_val m, officerTitle = officer_title m,
          otherText = other_text m, transactionCategory = category,
          securityTitle = st, transactionDate = td, transactionCode = code,
          equitySwapInvolved = es, shares = sh, pricePerShare = pps,
          sharesOwnedFollowingTransaction = so\<rparr>))))))))))"

text \<open>
  The iterable of a transaction loop:
  \<^verbatim>\<open>grp.get(table, {}).get("transactions", []) or []\<close>, then iterated.
\<close>

definition table_transactions :: "json \<Rightarrow> string \<Rightarrow> py_error + json list" where
  "table_transactions grp table_name =
     ebind (dict_get grp table_name (JObj [])) (\<lambda>tbl.
     ebind (dict_get tbl ''transactions'' (JArr [])) (\<lambda>txs.
     py_iter (py_or txs (JArr []))))"

text \<open>The body of \<^verbatim>\<open>for grp in tx_groups\<close>, on the list \<open>records\<close> built so far.\<close>

definition enhanced_group :: "json \<Rightarrow> enhanced_record list \<Rightarrow> py_error + enhanced_record list" where
  "enhanced_group grp records =
     ebind (meta_of grp) (\<lambda>m.
     ebind (table_transactions grp ''nonDerivativeTable'') (\<lambda>nd.
     ebind (for_each (\<lambda>tx recs. ebind (extract_tx m ''nonDerivative'' tx) (\<lambda>r. Inr (recs @ [r])))
              nd records) (\<lambda>records1.
     ebind (table_transactions grp ''derivativeTable'') (\<lambda>dv.
     for_each (\<lambda>tx recs. ebind (extract_tx m ''derivative'' tx) (\<lambda>r. Inr (recs @ [r])))
       dv records1))))"

text \<open>
  \<^verbatim>\<open>tx_groups = data.get("transactions", [])\<close> and the loop over it: the part of
  \<^verbatim>\<open>fetch_insider_trades_enhanced\<close> that runs on the parsed response.
\<close>

definition tx_groups :: "json \<Rightarrow> py_error + json list" where
  "tx_groups data = ebind (dict_get data ''transactions'' (JArr [])) py_iter"

definition enhanced_records :: "json \<Rightarrow> py_error + enhanced_record list" where
  "enhanced_records data = ebind (tx_groups data) (\<lambda>gs. for_each enhanced_group gs [])"

section \<open>The basic extractor (deep_dive_into_return_post_insider_trade.py, return_post_insider_trading.py)\<close>

text \<open>The rows carry the transaction date in a type of their own: the extractor emits
  the JSON value, the analyzers work on the parsed timestamp.\<close>

record 'd trade_record =
  ticker :: json
  transactionDate :: 'd
  transactionCode :: json
  transactionDesc :: string
  shares :: json
  pricePerShare :: json
  officerTitle :: json

definition TRANSACTION_CODE_MEANINGS :: "(string \<times> string) list" where
  "TRANSACTION_CODE_MEANINGS =
     [(''P'', ''Purchase''), (''S'', ''Sale''), (''A'', ''Grant/Award''),
      (''D'', ''Disposition''), (''F'', ''Payment''), (''M'', ''Conversion/Exercise''),
      (''G'', ''Gift''), (''V'', ''Voluntary''), (''J'', ''Other''),
      (''K'', ''Equity Swap''), (''L'', ''Small Acquisition''), (''U'', ''Tender'')]"

text \<open>
  \<^verbatim>\<open>TRANSACTION_CODE_MEANINGS.get(code, "Unknown")\<close>: the key is whatever JSON value
  the code field held. A list or a dict is unhashable and the lookup raises
  TypeError; every other value that is not one of the twelve strings is absent.
\<close>

fun meanings_get :: "json \<Rightarrow> py_error + string" where
  "meanings_get (JStr c) =
     Inr (case map_of TRANSACTION_CODE_MEANINGS c of Some d \<Rightarrow> d | None \<Rightarrow> ''Unknown'')"
| "meanings_get (JArr xs) = Inl TypeError"
| "meanings_get (JObj kv) = Inl TypeError"
| "meanings_get _ = Inr ''Unknown''"

text \<open>
  \<^verbatim>\<open>symbol = grp.get("issuer", {}).get("tradingSymbol") or query.split(':')[-1]\<close>
\<close>

definition symbol_of :: "string \<Rightarrow> json \<Rightarrow> py_error + json" where
  "symbol_of query grp =
     ebind (dict_get grp ''issuer'' (JObj [])) (\<lambda>issuer.
     ebind (dict_get issuer ''tradingSymbol'' JNull) (\<lambda>sym.
     Inr (py_or sym (JStr (last (split CHR '':'' query))))))"

text \<open>The dict literal appended for one transaction, its entries evaluated in order.\<close>

definition make_row :: "json \<Rightarrow> json \<Rightarrow> json \<Rightarrow> py_error + json trade_record" where
  "make_row symbol grp tx =
     ebind (dict_get tx ''coding'' (JObj [])) (\<lambda>coding.
     ebind (dict_get coding ''code'' JNull) (\<lambda>code.
     ebind (dict_get tx ''transactionDate'' JNull) (\<lambda>td.
     ebind (meanings_get code) (\<lambda>desc.
     ebind (dict_get tx ''amounts'' (JObj [])) (\<lambda>a1.
     ebind (dict_get a1 ''shares'' JNull) (\<lambda>sh.
     ebind (dict_get tx ''amounts'' (JObj [])) (\<lambda>a2.
     ebind (dict_get a2 ''pricePerShare'' JNull) (\<lambda>pps.
     ebind (dict_get grp ''reportingOwner'' (JObj [])) (\<lambda>ro.
     ebind (dict_get ro ''relationship'' (JObj [])) (\<lambda>rel.
     ebind (dict_get rel ''officerTitle'' JNull) (\<lambda>ot.
     Inr \<lparr>ticker = symbol, transactionDate = td, transactionCode = code,
          transactionDesc = desc, shares = sh, pricePerShare = pps,
          officerTitle = ot\<rparr>)))))))))))"

definition basic_group :: "string \<Rightarrow> json \<Rightarrow> json trade_record list \<Rightarrow> py_error + json trade_record list" where
  "basic_group query grp rows =
     ebind (symbol_of query grp) (\<lambda>symbol.
     for_each (\<lambda>table_name rows1.
        ebind (table_transactions grp table_name) (\<lambda>txs.
        for_each (\<lambda>tx rows2. ebind (make_row symbol grp tx) (\<lambda>r. Inr (rows2 @ [r])))
          txs rows1))
       [''nonDerivativeTable'', ''derivativeTable''] rows)"

definition basic_records :: "string \<Rightarrow> json \<Rightarrow> py_error + json trade_record list" where
  "basic_records query data =
     ebind (tx_groups data) (\<lambda>gs. for_each (basic_group query) gs [])"

section \<open>The request around the extractors\<close>

text \<open>
  What \<^verbatim>\<open>requests.post\<close> did: it raised (no connection, timeout), or it returned a
  response with a status code, a body text and the outcome of \<^verbatim>\<open>resp.json()\<close>
  on that body. The request itself (URL, payload, header or token) does not
  influence what the scripts do with the outcome and is left out.
\<close>

record response =
  status_code :: nat
  body_text :: string
  parsed :: "py_error + json"

datatype post_outcome = Raises py_error | Returns response

text \<open>\<^verbatim>\<open>resp.raise_for_status()\<close> raises HTTPError for the 4xx and 5xx codes only.\<close>

definition raise_for_status :: "response \<Rightarrow> py_error + unit" where
  "raise_for_status resp =
     (if 400 \<le> status_code resp \<and> status_code resp < 600 then Inl HTTPError else Inr ())"

text \<open>
  The lines the fetchers print. The text of an HTTPError names the status code,
  so the line of the basic fetcher, which prints the exception and
  \<^verbatim>\<open>resp.text\<close>, carries the status and the body.
\<close>

datatype log_line =
    ErrorFetchingFor string nat string
  | HttpError nat
  | ResponseBody string
  | NoTransactionsFound

text \<open>
  \<^verbatim>\<open>fetch_insider_trades_enhanced\<close> of Api_test.py: the request is made before the
  \<^verbatim>\<open>try\<close>, which covers \<^verbatim>\<open>raise_for_status\<close> alone and catches HTTPError alone.
  The function of the same name in api_test_expanded_list.py has the same
  structure and prints the status and the body on one line.
\<close>

definition fetch_insider_trades_enhanced ::
    "post_outcome \<Rightarrow> log_line list \<times> (py_error + enhanced_record list)" where
  "fetch_insider_trades_enhanced post =
     (case post of
        Raises e \<Rightarrow> ([], Inl e)
      | Returns resp \<Rightarrow>
          (case raise_for_status resp of
             Inl e \<Rightarrow> ([HttpError (status_code resp), ResponseBody (body_text resp)], Inr [])
           | Inr u \<Rightarrow>
               (case ebind (parsed resp) enhanced_records of
                  Inl e \<Rightarrow> ([], Inl e)
                | Inr records \<Rightarrow>
                    (if records = [] then [NoTransactionsFound] else [], Inr records))))"

text \<open>
  \<^verbatim>\<open>fetch_insider_trades\<close> of the two momentum scripts: the \<^verbatim>\<open>try\<close> covers the
  request and \<^verbatim>\<open>raise_for_status\<close>, and the handler catches every exception. The
  handler's message reads the local variable \<^verbatim>\<open>resp\<close>
  (\<^verbatim>\<open>getattr(resp, 'text', '')\<close>), which is bound only when the request returned:
  \<open>try_request\<close> gives the exception together with that binding.
\<close>

definition try_request :: "post_outcome \<Rightarrow> (py_error \<times> response option) + response" where
  "try_request post =
     (case post of
        Raises e \<Rightarrow> Inl (e, None)
      | Returns resp \<Rightarrow>
          (case raise_for_status resp of
             Inl e \<Rightarrow> Inl (e, Some resp)
           | Inr u \<Rightarrow> Inr resp))"

definition fetch_insider_trades ::
    "post_outcome \<Rightarrow> string \<Rightarrow> log_line list \<times> (py_error + json trade_record list)" where
  "fetch_insider_trades post query =
     (case try_request post of
        Inl (e, None) \<Rightarrow> ([], Inl UnboundLocalError)
      | Inl (e, Some resp) \<Rightarrow>
          ([ErrorFetchingFor query (status_code resp) (body_text resp)], Inr [])
      | Inr resp \<Rightarrow> ([], ebind (parsed resp) (basic_records query)))"

section \<open>The credential\<close>

text \<open>
  \<^verbatim>\<open>os.getenv(name, default)\<close> on the process environment, and what each script
  does with the value before its first request: it halts with an exception, or
  it proceeds and sends the value as its credential.
\<close>

definition getenv :: "(string \<rightharpoonup> string) \<Rightarrow> string \<Rightarrow> string \<Rightarrow> string" where
  "getenv env name fallback = (case env name of Some v \<Rightarrow> v | None \<Rightarrow> fallback)"

datatype startup = Halt py_error | Proceed string

text \<open>deep_dive_into_return_post_insider_trade.py, lines 9 to 11.\<close>

definition deep_dive_startup :: "(string \<rightharpoonup> string) \<Rightarrow> startup" where
  "deep_dive_startup env =
     (let API_KEY = getenv env ''API_KEY'' ''API_KEY''
      in if API_KEY = [] then Halt ValueError else Proceed API_KEY)"

text \<open>return_post_insider_trading.py, lines 9 to 11.\<close>

definition return_post_startup :: "(string \<rightharpoonup> string) \<Rightarrow> startup" where
  "return_post_startup env =
     (let API_KEY = getenv env [] []
      in if API_KEY = [] then Halt ValueError else Proceed API_KEY)"

text \<open>api_test_expanded_list.py, line 6 and the guard of its main block.\<close>

definition expanded_list_startup :: "(string \<rightharpoonup> string) \<Rightarrow> startup" where
  "expanded_list_startup env =
     (let API_KEY = getenv env ''API_KEY'' ''API_KEY''
      in if API_KEY = ''YOUR_REAL_KEY_HERE'' then Halt ValueError else Proceed API_KEY)"

text \<open>Api_test.py, line 6: no guard.\<close>

definition api_test_startup :: "(string \<rightharpoonup> string) \<Rightarrow> startup" where
  "api_test_startup env = Proceed (getenv env ''API_KEY'' ''API_KEY'')"

section \<open>Ticker sampling\<close>

text \<open>
  \<^verbatim>\<open>list(dict.fromkeys(xs))\<close>: the keys in the order of their first occurrence.
\<close>

definition fromkeys :: "'a list \<Rightarrow> 'a list" where
  "fromkeys xs = foldl (\<lambda>keys x. if x \<in> set keys then keys else keys @ [x]) [] xs"

text \<open>
  \<^verbatim>\<open>random.sample(population, k)\<close> raises ValueError when \<open>k\<close> is negative or larger
  than the population, and otherwise returns the elements at \<open>k\<close> distinct
  positions chosen by the generator. The positions chosen are the argument
  \<open>picks\<close>; \<open>sample_positions\<close> says that they are a choice the generator can make.
\<close>

definition random_sample :: "nat list \<Rightarrow> 'a list \<Rightarrow> int \<Rightarrow> py_error + 'a list" where
  "random_sample picks population k =
     (if k < 0 \<or> int (length population) < k then Inl ValueError
      else Inr (map (\<lambda>i. population ! i) picks))"

definition sample_positions :: "nat \<Rightarrow> int \<Rightarrow> nat list \<Rightarrow> bool" where
  "sample_positions n k picks \<longleftrightarrow>
     int (length picks) = k \<and> distinct picks \<and> list_all (\<lambda>i. i < n) picks"

definition mega_cap_universe :: "string list" where
  "mega_cap_universe =
     [''AAPL'', ''MSFT'', ''AMZN'', ''GOOGL'', ''BRK.B'', ''NVDA'', ''META'', ''TSLA'', ''JPM'', ''V'',
      ''UNH'', ''HD'', ''PG'', ''MA'', ''DIS'', ''NFLX'', ''PFE'', ''BAC'', ''VZ'', ''KO'',
      ''NKE'', ''CRM'', ''ORCL'', ''IBM'', ''WMT'', ''COST'', ''ADBE'', ''CSCO'', ''XOM'', ''CVX'',
      ''PEP'', ''ABT'', ''TMO'', ''MDT'', ''ACN'', ''LLY'', ''TXN'', ''NEE'', ''AVGO'', ''SAP'']"

definition small_cap_universe :: "string list" where
  "small_cap_universe =
     [''AAXN'', ''CZR'', ''CRMT'', ''GLBE'', ''HZN'', ''IDEX'', ''LLEX'', ''MNST'', ''NWSA'', ''OTEX'',
      ''PNRG'', ''QDEL'', ''RGEN'', ''SAIC'', ''TALO'', ''UBSI'', ''VCRA'', ''WOR'', ''XYL'', ''ZION'']"

text \<open>
  \<^verbatim>\<open>is_listed\<close> asks the market-data service and turns every failure into
  \<^verbatim>\<open>False\<close>; its answers are the argument \<open>is_listed\<close>.
\<close>

definition get_random_mega_caps :: "(string \<Rightarrow> bool) \<Rightarrow> nat list \<Rightarrow> int \<Rightarrow> py_error + string list" where
  "get_random_mega_caps is_listed picks sample_size =
     (let unique_universe = fromkeys mega_cap_universe;
          listed = filter is_listed unique_universe
      in if int (length listed) < sample_size then Inr listed
         else random_sample picks listed sample_size)"

definition get_random_small_caps :: "nat list \<Rightarrow> int \<Rightarrow> py_error + string list" where
  "get_random_small_caps picks sample_size = random_sample picks small_cap_universe sample_size"

text \<open>The candidates of a pool that are listed, in the order of the pool.\<close>

definition listed_subset :: "(string \<Rightarrow> bool) \<Rightarrow> string list \<Rightarrow> string list" where
  "listed_subset is_listed universe = filter is_listed universe"


section \<open>Prices\<close>

text \<open>
  A close price is a numpy float64: an IEEE 754 binary64 number, and the
  arithmetic on it rounds to nearest, ties to even, overflows to an infinity
  and does not raise on a zero divisor. \<open>Finite q\<close> is the finite number \<open>q\<close>,
  with \<open>Finite 0\<close> the positive zero; \<open>NegZero\<close> is the negative zero. The results
  of the operations are binary64 numbers.
\<close>

datatype float64 = Finite rat | NegZero | PosInf | NegInf | NaN

text \<open>The number of binary digits of a natural number (Python's \<^verbatim>\<open>int.bit_length\<close>).\<close>

fun bit_length :: "nat \<Rightarrow> nat" where
  "bit_length n = (if n = 0 then 0 else Suc (bit_length (n div 2)))"

declare bit_length.simps [simp del]

definition pow2 :: "int \<Rightarrow> rat" where
  "pow2 k = (if 0 \<le> k then 2 ^ nat k else 1 / 2 ^ nat (- k))"

text \<open>The binary exponent of a positive rational: the floor of its logarithm to base 2.\<close>

definition exponent :: "rat \<Rightarrow> int" where
  "exponent a =
     (if 1 \<le> a then int (bit_length (nat \<lfloor>a\<rfloor>)) - 1
      else - int (bit_length (nat (\<lceil>1 / a\<rceil> - 1))))"

definition round_half_even :: "rat \<Rightarrow> int" where
  "round_half_even m =
     (let f = \<lfloor>m\<rfloor>; r = m - of_int f
      in if r < 1 / 2 then f
         else if 1 / 2 < r then f + 1
         else if even f then f else f + 1)"

text \<open>
  The binary64 value of an exact result: 53 significant bits, the unit in the
  last place never below \<open>2\<^sup>-\<^sup>1\<^sup>0\<^sup>7\<^sup>4\<close> (subnormal numbers), an infinity from
  \<open>2\<^sup>1\<^sup>0\<^sup>2\<^sup>4\<close> on, and a zero that keeps the sign when the result rounds to zero.
\<close>

definition round64 :: "rat \<Rightarrow> float64" where
  "round64 q =
     (if q = 0 then Finite 0
      else
        let a = \<bar>q\<bar>;
            e = max (exponent a) (- 1022);
            ulp = pow2 (e - 52);
            r = of_int (round_half_even (a / ulp)) * ulp
        in if pow2 1024 \<le> r then (if q < 0 then NegInf else PosInf)
           else if r = 0 then (if q < 0 then NegZero else Finite 0)
           else Finite (if q < 0 then - r else r))"

fun negative :: "float64 \<Rightarrow> bool" where
  "negative (Finite q) = (q < 0)"
| "negative NegZero = True"
| "negative NegInf = True"
| "negative _ = False"

fun is_inf :: "float64 \<Rightarrow> bool" where
  "is_inf PosInf = True"
| "is_inf NegInf = True"
| "is_inf _ = False"

fun finite_value :: "float64 \<Rightarrow> rat" where
  "finite_value (Finite q) = q"
| "finite_value _ = 0"

definition signed_zero :: "bool \<Rightarrow> float64" where
  "signed_zero neg = (if neg then NegZero else Finite 0)"

definition signed_inf :: "bool \<Rightarrow> float64" where
  "signed_inf neg = (if neg then NegInf else PosInf)"

text \<open>
  \<^verbatim>\<open>x - y\<close> on float64: NaN is contagious, equal infinities cancel to NaN, an
  exact zero result is the positive zero, except that \<open>-0 - +0\<close> is \<open>-0\<close>.
\<close>

fun fsub :: "float64 \<Rightarrow> float64 \<Rightarrow> float64" where
  "fsub NaN y = NaN"
| "fsub x NaN = NaN"
| "fsub PosInf PosInf = NaN"
| "fsub NegInf NegInf = NaN"
| "fsub PosInf y = PosInf"
| "fsub NegInf y = NegInf"
| "fsub x PosInf = NegInf"
| "fsub x NegInf = PosInf"
| "fsub NegZero NegZero = Finite 0"
| "fsub NegZero (Finite b) = (if b = 0 then NegZero else round64 (- b))"
| "fsub (Finite a) NegZero = round64 a"
| "fsub (Finite a) (Finite b) = round64 (a - b)"

text \<open>
  \<^verbatim>\<open>x / y\<close> on numpy's float64: no exception on a zero divisor; \<open>0 / 0\<close> and
  \<open>inf / inf\<close> are NaN, a non-zero number over zero is an infinity, and the
  sign of a zero or an infinity is the product of the signs.
\<close>

definition fdiv :: "float64 \<Rightarrow> float64 \<Rightarrow> float64" where
  "fdiv x y =
     (if x = NaN \<or> y = NaN then NaN
      else if is_inf x then (if is_inf y then NaN else signed_inf (negative x \<noteq> negative y))
      else if is_inf y then signed_zero (negative x \<noteq> negative y)
      else if finite_value y = 0
        then (if finite_value x = 0 then NaN else signed_inf (negative x \<noteq> negative y))
      else if finite_value x = 0 then signed_zero (negative x \<noteq> negative y)
      else round64 (finite_value x / finite_value y))"

section \<open>Timestamps\<close>

text \<open>
  A pandas timestamp: the wall-clock reading in nanoseconds counted from
  1970-01-01 00:00, and the UTC offset in seconds when the timestamp is
  timezone-aware (\<open>None\<close> when it is naive). A date is the number of its day,
  counted from 1970-01-01. The missing timestamp NaT is \<open>None\<close> of the option
  type. The values of pandas timestamps and time spans are 64-bit counts of
  nanoseconds, the least one standing for NaT.
\<close>

record timestamp =
  wall :: int
  tzinfo :: "int option"

definition in_bounds :: "int \<Rightarrow> bool" where
  "in_bounds v \<longleftrightarrow> - 9223372036854775807 \<le> v \<and> v \<le> 9223372036854775807"

text \<open>\<^verbatim>\<open>.date()\<close> and \<^verbatim>\<open>.dt.date\<close>: the day of the wall-clock reading.\<close>

definition date_of :: "timestamp \<Rightarrow> int" where
  "date_of ts = wall ts div 86400000000000"

text \<open>
  \<^verbatim>\<open>tz_convert(None)\<close> turns an aware timestamp into the naive UTC reading and
  raises TypeError on a naive one; \<^verbatim>\<open>tz_localize(None)\<close> drops the offset and
  keeps the reading.
\<close>

definition tz_convert_None :: "timestamp \<Rightarrow> py_error + timestamp" where
  "tz_convert_None ts =
     (case tzinfo ts of
        None \<Rightarrow> Inl TypeError
      | Some off \<Rightarrow> Inr \<lparr>wall = wall ts - off * 1000000000, tzinfo = None\<rparr>)"

definition tz_localize_None :: "timestamp \<Rightarrow> timestamp" where
  "tz_localize_None ts = ts\<lparr>tzinfo := None\<rparr>"

text \<open>
  \<^verbatim>\<open>if ts.tzinfo is not None: ts = ts.tz_convert(None).tz_localize(None)\<close>
\<close>

definition strip_tz :: "timestamp \<Rightarrow> py_error + timestamp" where
  "strip_tz ts =
     (if tzinfo ts \<noteq> None
      then ebind (tz_convert_None ts) (\<lambda>t. Inr (tz_localize_None t))
      else Inr ts)"

text \<open>
  \<^verbatim>\<open>pd.Timedelta(days=n)\<close> and \<^verbatim>\<open>pd.Timedelta(hours=n)\<close>: the span in nanoseconds,
  and pandas' OutOfBoundsTimedelta when it does not fit.
\<close>

definition Timedelta :: "int \<Rightarrow> py_error + int" where
  "Timedelta ns = (if in_bounds ns then Inr ns else Inl OutOfBoundsTimedelta)"

text \<open>
  \<^verbatim>\<open>ts + td\<close> for a timestamp or NaT: NaT stays NaT, and a sum outside the range
  of timestamps raises. The timestamp is naive where the analyzer adds.
\<close>

definition add_timedelta :: "timestamp option \<Rightarrow> int \<Rightarrow> py_error + timestamp option" where
  "add_timedelta ts td =
     (case ts of
        None \<Rightarrow> Inr None
      | Some t \<Rightarrow>
          if in_bounds (wall t + td) then Inr (Some (t\<lparr>wall := wall t + td\<rparr>))
          else Inl OutOfBoundsDatetime)"

text \<open>
  \<^verbatim>\<open>date + td\<close> for a date or NaT: Python's date arithmetic uses the whole days of
  the span. The dates of a datetime64 column lie between the years 1677 and
  2262 and a span has less than 106752 days, so the sum is a date Python can
  hold.
\<close>

definition add_days :: "int option \<Rightarrow> int \<Rightarrow> int option" where
  "add_days d td = map_option (\<lambda>x. x + td div 86400000000000) d"

text \<open>
  \<^verbatim>\<open>realized.date() - trade_date\<close>, then \<^verbatim>\<open>.days\<close>: Python subtracts two dates and
  refuses to subtract NaT from a date.
\<close>

definition days_between :: "int \<Rightarrow> int option \<Rightarrow> py_error + int" where
  "days_between realized trade_date =
     (case trade_date of None \<Rightarrow> Inl TypeError | Some d \<Rightarrow> Inr (realized - d))"

text \<open>
  \<^verbatim>\<open>(realized_ts.to_pydatetime() - trade_dt.to_pydatetime()).total_seconds() / 3600.0\<close>.
  \<^verbatim>\<open>to_pydatetime\<close> keeps the microseconds of the reading; Python refuses to
  subtract a naive datetime and an aware one; \<^verbatim>\<open>total_seconds\<close> is the
  float64 of the difference in seconds. With NaT for the transaction
  \<^verbatim>\<open>to_pydatetime\<close> gives NaT, the difference is NaT and its
  \<^verbatim>\<open>total_seconds\<close> is NaN.
\<close>

definition datetime_sub :: "timestamp \<Rightarrow> timestamp \<Rightarrow> py_error + int" where
  "datetime_sub a b =
     (case (tzinfo a, tzinfo b) of
        (None, None) \<Rightarrow> Inr (wall a div 1000 - wall b div 1000)
      | (Some oa, Some ob) \<Rightarrow>
          Inr ((wall a div 1000 - oa * 1000000) - (wall b div 1000 - ob * 1000000))
      | _ \<Rightarrow> Inl TypeError)"

definition total_seconds :: "int \<Rightarrow> float64" where
  "total_seconds microseconds = round64 (of_int microseconds / 1000000)"

definition hours_between :: "timestamp \<Rightarrow> timestamp option \<Rightarrow> py_error + float64" where
  "hours_between realized_ts trade_dt =
     (case trade_dt of
        None \<Rightarrow> Inr (fdiv NaN (Finite 3600))
      | Some t \<Rightarrow>
          ebind (datetime_sub realized_ts t) (\<lambda>us.
          Inr (fdiv (total_seconds us) (Finite 3600))))"

text \<open>
  Calendar dates for the examples: the day number of a date of the Gregorian
  calendar.
\<close>

definition is_leap :: "int \<Rightarrow> bool" where
  "is_leap y \<longleftrightarrow> y mod 4 = 0 \<and> (y mod 100 \<noteq> 0 \<or> y mod 400 = 0)"

definition days_before_year :: "int \<Rightarrow> int" where
  "days_before_year y = (y - 1) * 365 + (y - 1) div 4 - (y - 1) div 100 + (y - 1) div 400"

definition days_before_month :: "int \<Rightarrow> int \<Rightarrow> int" where
  "days_before_month y m =
     [0, 31, 59, 90, 120, 151, 181, 212, 243, 273, 304, 334] ! nat (m - 1)
     + (if 2 < m \<and> is_leap y then 1 else 0)"

definition ymd :: "int \<Rightarrow> int \<Rightarrow> int \<Rightarrow> int" where
  "ymd y m d = days_before_year y + days_before_month y m + d - 719163"

definition at_time :: "int \<Rightarrow> int \<Rightarrow> int \<Rightarrow> int" where
  "at_time day hh mm = (day * 86400 + hh * 3600 + mm * 60) * 1000000000"

definition midnight :: "int \<Rightarrow> timestamp" where
  "midnight d = \<lparr>wall = at_time d 0 0, tzinfo = None\<rparr>"

section \<open>The momentum analyzers\<close>

text \<open>
  The analyzers receive the frame the extractor built: trade records whose
  \<^verbatim>\<open>transactionDate\<close> is the JSON value of the filing. Their first step,
  \<^verbatim>\<open>pd.to_datetime\<close> on that column, is pandas': an argument \<open>to_datetime\<close>
  gives its outcome on a column. It raises (a string that is no date; aware
  and naive values in one column); or it returns a datetime64 column, with one
  timezone for the column (\<open>None\<close> when naive) and for each cell the
  wall-clock reading or NaT; or, for aware values with differing offsets and
  depending on the version of pandas, it returns a column of plain
  \<^verbatim>\<open>datetime\<close> objects, on which \<^verbatim>\<open>.dt\<close> and \<^verbatim>\<open>tz_convert\<close> raise AttributeError.
  The price history is the argument \<open>history\<close>: the observations (timestamp,
  close) that \<^verbatim>\<open>yf.Ticker(tkr).history(...)["Close"]\<close> holds for a ticker, a start
  and an end, or the exception raised on the way. Console output is left out.
\<close>

datatype parsed_column =
    ParseRaises py_error
  | DatetimeColumn "int option" "int option list"
  | ObjectColumn

definition with_date :: "'a trade_record \<Rightarrow> 'b \<Rightarrow> 'b trade_record" where
  "with_date r d =
     \<lparr>ticker = ticker r, transactionDate = d, transactionCode = transactionCode r,
      transactionDesc = transactionDesc r, shares = shares r,
      pricePerShare = pricePerShare r, officerTitle = officerTitle r\<rparr>"

text \<open>
  \<^verbatim>\<open>df["transactionDate"] = column\<close>: pandas returns a column as long as its
  argument, and refuses a column of another length.
\<close>

definition assign_column :: "'a trade_record list \<Rightarrow> 'b list \<Rightarrow> py_error + 'b trade_record list" where
  "assign_column df cells =
     (if length cells = length df then Inr (map2 with_date df cells) else Inl ValueError)"

text \<open>The \<^verbatim>\<open>try\<close> around the history request: every exception gives an empty series.\<close>

definition fetch_closes :: "py_error + 'c list \<Rightarrow> 'c list" where
  "fetch_closes h = (case h of Inl e \<Rightarrow> [] | Inr closes \<Rightarrow> closes)"

text \<open>\<^verbatim>\<open>closes.iloc[0]\<close>, \<^verbatim>\<open>closes.iloc[-1]\<close> and \<^verbatim>\<open>closes.index[-1]\<close> raise IndexError on an empty series.\<close>

definition iloc_first :: "'a list \<Rightarrow> py_error + 'a" where
  "iloc_first xs = (case xs of [] \<Rightarrow> Inl IndexError | x # rest \<Rightarrow> Inr x)"

definition iloc_last :: "'a list \<Rightarrow> py_error + 'a" where
  "iloc_last xs = (if xs = [] then Inl IndexError else Inr (last xs))"

subsection \<open>Day window (deep_dive_into_return_post_insider_trade.py)\<close>

record 'd day_result = "'d trade_record" +
  return :: "float64 option"
  realizedDate :: "int option"
  daysDiff :: "int option"

text \<open>
  \<^verbatim>\<open>df["transactionDate"] = pd.to_datetime(df["transactionDate"]).dt.date\<close>
\<close>

definition day_frame ::
    "(json list \<Rightarrow> parsed_column) \<Rightarrow> json trade_record list
      \<Rightarrow> py_error + int option trade_record list" where
  "day_frame to_datetime df =
     (case to_datetime (map transactionDate df) of
        ParseRaises e \<Rightarrow> Inl e
      | ObjectColumn \<Rightarrow> Inl AttributeError
      | DatetimeColumn tz cells \<Rightarrow>
          assign_column df (map (map_option (\<lambda>w. w div 86400000000000)) cells))"

text \<open>The body of the loop over the rows.\<close>

definition analyze_day_row ::
    "(json \<Rightarrow> int option \<Rightarrow> int option \<Rightarrow> py_error + (timestamp \<times> float64) list)
      \<Rightarrow> int \<Rightarrow> int option trade_record \<Rightarrow> py_error + int option day_result" where
  "analyze_day_row history days_after row =
     (let tkr = ticker row;
          trade_date = transactionDate row;
          start = trade_date
      in ebind (Timedelta (days_after * 86400000000000)) (\<lambda>td.
         let end_date = add_days trade_date td;
             closes = fetch_closes (history tkr start end_date)
         in if 1 \<le> length closes then
              ebind (iloc_first closes) (\<lambda>first_obs.
              ebind (iloc_last closes) (\<lambda>last_obs.
              ebind (days_between (date_of (fst last_obs)) trade_date) (\<lambda>days_diff.
              Inr (trade_record.extend row
                (day_result.fields
                  (Some (fdiv (fsub (snd last_obs) (snd first_obs)) (snd first_obs)))
                  (Some (date_of (fst last_obs)))
                  (Some days_diff))))))
            else Inr (trade_record.extend row (day_result.fields None None None))))"

definition analyze_trade_momentum_days ::
    "(json list \<Rightarrow> parsed_column)
      \<Rightarrow> (json \<Rightarrow> int option \<Rightarrow> int option \<Rightarrow> py_error + (timestamp \<times> float64) list)
      \<Rightarrow> json trade_record list \<Rightarrow> int \<Rightarrow> py_error + int option day_result list" where
  "analyze_trade_momentum_days to_datetime history df days_after =
     (if df = [] then Inr []
      else ebind (day_frame to_datetime df) (\<lambda>rows.
           for_each
             (\<lambda>row results. ebind (analyze_day_row history days_after row)
                (\<lambda>record. Inr (results @ [record])))
             rows []))"

subsection \<open>Hour window (return_post_insider_trading.py)\<close>

record 'd hour_result = "'d trade_record" +
  return :: "float64 option"
  realizedDate :: "timestamp option"
  hoursDiff :: "float64 option"

text \<open>
  \<^verbatim>\<open>df["transactionDate"] = pd.to_datetime(df["transactionDate"])\<close>. On a column of
  plain \<^verbatim>\<open>datetime\<close> objects the loop raises at the first of them.
\<close>

definition hour_frame ::
    "(json list \<Rightarrow> parsed_column) \<Rightarrow> json trade_record list
      \<Rightarrow> py_error + timestamp option trade_record list" where
  "hour_frame to_datetime df =
     (case to_datetime (map transactionDate df) of
        ParseRaises e \<Rightarrow> Inl e
      | ObjectColumn \<Rightarrow> Inl AttributeError
      | DatetimeColumn tz cells \<Rightarrow>
          assign_column df (map (map_option (\<lambda>w. \<lparr>wall = w, tzinfo = tz\<rparr>)) cells))"

text \<open>The timestamp of the row made naive; NaT has no timezone and is left as it is.\<close>

definition naive_trade_dt :: "timestamp option \<Rightarrow> py_error + timestamp option" where
  "naive_trade_dt trade_dt =
     (case trade_dt of
        None \<Rightarrow> Inr None
      | Some ts \<Rightarrow> ebind (strip_tz ts) (\<lambda>t. Inr (Some t)))"

definition analyze_hour_row ::
    "(json \<Rightarrow> timestamp option \<Rightarrow> timestamp option \<Rightarrow> py_error + (timestamp \<times> float64) list)
      \<Rightarrow> int \<Rightarrow> timestamp option trade_record \<Rightarrow> py_error + timestamp option hour_result" where
  "analyze_hour_row history hours_after row =
     (let tkr = ticker row
      in ebind (naive_trade_dt (transactionDate row)) (\<lambda>trade_dt.
         ebind (Timedelta (hours_after * 3600000000000)) (\<lambda>td.
         ebind (add_timedelta trade_dt td) (\<lambda>end_dt.
         let closes = fetch_closes (history tkr trade_dt end_dt)
         in if closes \<noteq> [] then
              ebind (iloc_first closes) (\<lambda>first_obs.
              ebind (iloc_last closes) (\<lambda>last_obs.
              ebind (strip_tz (fst last_obs)) (\<lambda>realized_ts.
              ebind (hours_between realized_ts trade_dt) (\<lambda>hours_diff.
              Inr (trade_record.extend row
                (hour_result.fields
                  (Some (fdiv (fsub (snd last_obs) (snd first_obs)) (snd first_obs)))
                  (Some realized_ts)
                  (Some hours_diff)))))))
            else Inr (trade_record.extend row (hour_result.fields None None None))))))"

definition analyze_trade_momentum_hours ::
    "(json list \<Rightarrow> parsed_column)
      \<Rightarrow> (json \<Rightarrow> timestamp option \<Rightarrow> timestamp option \<Rightarrow> py_error + (timestamp \<times> float64) list)
      \<Rightarrow> json trade_record list \<Rightarrow> int \<Rightarrow> py_error + timestamp option hour_result list" where
  "analyze_trade_momentum_hours to_datetime history df hours_after =
     (if df = [] then Inr []
      else ebind (hour_frame to_datetime df) (\<lambda>rows.
           for_each
             (\<lambda>row results. ebind (analyze_hour_row history hours_after row)
                (\<lambda>record. Inr (results @ [record])))
             rows []))"

section \<open>Vocabulary of the properties\<close>

subsection \<open>Extraction\<close>

text \<open>
  The filing groups of a response, the transactions of one sub-table of a group,
  and the record the extractor makes of one transaction of a group.
\<close>

definition filing_groups :: "json \<Rightarrow> json list" where
  "filing_groups data = (case tx_groups data of Inr gs \<Rightarrow> gs | Inl e \<Rightarrow> [])"

definition transactions_in :: "json \<Rightarrow> string \<Rightarrow> json list" where
  "transactions_in grp table_name =
     (case table_transactions grp table_name of Inr txs \<Rightarrow> txs | Inl e \<Rightarrow> [])"

definition enhanced_record_of :: "json \<Rightarrow> string \<Rightarrow> json \<Rightarrow> py_error + enhanced_record" where
  "enhanced_record_of grp category tx = ebind (meta_of grp) (\<lambda>m. extract_tx m category tx)"

definition basic_record_of :: "string \<Rightarrow> json \<Rightarrow> json \<Rightarrow> py_error + json trade_record" where
  "basic_record_of query grp tx = ebind (symbol_of query grp) (\<lambda>s. make_row s grp tx)"

text \<open>What one filing group appends to the list, as a value.\<close>

definition enhanced_group_out :: "json \<Rightarrow> py_error + enhanced_record list" where
  "enhanced_group_out grp =
     ebind (meta_of grp) (\<lambda>m.
     ebind (table_transactions grp ''nonDerivativeTable'') (\<lambda>nd.
     ebind (map_err (extract_tx m ''nonDerivative'') nd) (\<lambda>r1.
     ebind (table_transactions grp ''derivativeTable'') (\<lambda>dv.
     ebind (map_err (extract_tx m ''derivative'') dv) (\<lambda>r2. Inr (r1 @ r2))))))"

definition basic_group_out :: "string \<Rightarrow> json \<Rightarrow> py_error + json trade_record list" where
  "basic_group_out query grp =
     ebind (symbol_of query grp) (\<lambda>s.
     ebind (table_transactions grp ''nonDerivativeTable'') (\<lambda>nd.
     ebind (map_err (make_row s grp) nd) (\<lambda>r1.
     ebind (table_transactions grp ''derivativeTable'') (\<lambda>dv.
     ebind (map_err (make_row s grp) dv) (\<lambda>r2. Inr (r1 @ r2))))))"

text \<open>
  The vocabulary's entry for a code, \<open>Unknown\<close> when the code is not a key; the
  values a dict accepts as a key.
\<close>

definition vocabulary_entry :: "json \<Rightarrow> string" where
  "vocabulary_entry code =
     (case code of
        JStr c \<Rightarrow> (case map_of TRANSACTION_CODE_MEANINGS c of Some d \<Rightarrow> d | None \<Rightarrow> ''Unknown'')
      | _ \<Rightarrow> ''Unknown'')"

fun hashable :: "json \<Rightarrow> bool" where
  "hashable (JArr xs) = False"
| "hashable (JObj kv) = False"
| "hashable _ = True"

text \<open>
  The value found by following keys into nested objects, \<open>None\<close> as soon as a key
  is absent; \<open>shaped v path\<close> says that every value met on the way, where present,
  is an object (the last one may be anything). An absent value reads as null.
\<close>

fun at_path :: "json \<Rightarrow> string list \<Rightarrow> json option" where
  "at_path v [] = Some v"
| "at_path (JObj kv) (k # ks) = (case map_of kv k of None \<Rightarrow> None | Some v \<Rightarrow> at_path v ks)"
| "at_path _ (k # ks) = None"

fun shaped :: "json \<Rightarrow> string list \<Rightarrow> bool" where
  "shaped v [] = True"
| "shaped (JObj kv) (k # ks) = (case map_of kv k of None \<Rightarrow> True | Some v \<Rightarrow> shaped v ks)"
| "shaped _ (k # ks) = False"

definition field_or_null :: "json option \<Rightarrow> json" where
  "field_or_null v = (case v of Some x \<Rightarrow> x | None \<Rightarrow> JNull)"

text \<open>A sub-table that is missing, has no transaction list, or has an empty one.\<close>

definition no_transactions :: "json \<Rightarrow> string \<Rightarrow> bool" where
  "no_transactions grp table_name \<longleftrightarrow>
     shaped grp [table_name, ''transactions'']
     \<and> (case at_path grp [table_name, ''transactions''] of None \<Rightarrow> True | Some v \<Rightarrow> \<not> truthy v)"

subsection \<open>Momentum\<close>

text \<open>
  The naive UTC reading of a timestamp; the closes fetched for a row by each
  analyzer; the return over a non-empty series of closes.
\<close>

definition naive_utc :: "timestamp \<Rightarrow> timestamp" where
  "naive_utc ts =
     (case tzinfo ts of
        None \<Rightarrow> ts
      | Some off \<Rightarrow> \<lparr>wall = wall ts - off * 1000000000, tzinfo = None\<rparr>)"

definition window_end :: "timestamp \<Rightarrow> int \<Rightarrow> timestamp" where
  "window_end t hours_after = t\<lparr>wall := wall t + hours_after * 3600000000000\<rparr>"

definition day_closes ::
    "(json \<Rightarrow> int option \<Rightarrow> int option \<Rightarrow> py_error + (timestamp \<times> float64) list)
      \<Rightarrow> int \<Rightarrow> int option trade_record \<Rightarrow> (timestamp \<times> float64) list" where
  "day_closes history days_after row =
     fetch_closes (history (ticker row) (transactionDate row)
                     (map_option (\<lambda>d. d + days_after) (transactionDate row)))"

definition hour_closes ::
    "(json \<Rightarrow> timestamp option \<Rightarrow> timestamp option \<Rightarrow> py_error + (timestamp \<times> float64) list)
      \<Rightarrow> int \<Rightarrow> timestamp option trade_record \<Rightarrow> (timestamp \<times> float64) list" where
  "hour_closes history hours_after row =
     fetch_closes (history (ticker row) (map_option naive_utc (transactionDate row))
                     (map_option (\<lambda>ts. window_end (naive_utc ts) hours_after)
                        (transactionDate row)))"

definition price_return :: "(timestamp \<times> float64) list \<Rightarrow> float64" where
  "price_return closes = fdiv (fsub (snd (last closes)) (snd (hd closes))) (snd (hd closes))"

text \<open>
  The conditions under which a row does not raise. Day window: the window is a
  time span pandas can hold, and a row without a date has no closes. Hour
  window: the window is a time span pandas can hold, and the end of the
  window of a dated row is a timestamp pandas can hold.
\<close>

definition day_window_ok :: "int \<Rightarrow> bool" where
  "day_window_ok days_after \<longleftrightarrow> in_bounds (days_after * 86400000000000)"

definition day_row_ok ::
    "(json \<Rightarrow> int option \<Rightarrow> int option \<Rightarrow> py_error + (timestamp \<times> float64) list)
      \<Rightarrow> int \<Rightarrow> int option trade_record \<Rightarrow> bool" where
  "day_row_ok history days_after row \<longleftrightarrow>
     day_window_ok days_after
     \<and> (transactionDate row \<noteq> None \<or> day_closes history days_after row = [])"

definition hour_row_ok :: "int \<Rightarrow> timestamp option trade_record \<Rightarrow> bool" where
  "hour_row_ok hours_after row \<longleftrightarrow>
     in_bounds (hours_after * 3600000000000)
     \<and> (case transactionDate row of
          None \<Rightarrow> True
        | Some ts \<Rightarrow> in_bounds (wall (naive_utc ts) + hours_after * 3600000000000))"

section \<open>Example inputs\<close>

definition tx_purchase :: json where
  "tx_purchase =
     JObj [(''transactionDate'', JStr ''2024-01-02''),
           (''coding'', JObj [(''code'', JStr ''P'')]),
           (''amounts'', JObj [(''shares'', JNum 100), (''pricePerShare'', JNum 10)])]"

definition tx_sale :: json where
  "tx_sale = JObj [(''coding'', JObj [(''code'', JStr ''S'')])]"

definition tx_other :: json where
  "tx_other = JObj [(''coding'', JObj [(''code'', JStr ''Z'')])]"

definition tx_bare :: json where
  "tx_bare = JObj [(''transactionDate'', JStr ''2024-01-02'')]"

definition grp_full :: json where
  "grp_full =
     JObj [(''issuer'', JObj [(''tradingSymbol'', JStr ''TSLA'')]),
           (''documentType'', JStr ''4''),
           (''nonDerivativeTable'', JObj [(''transactions'', JArr [tx_purchase, tx_sale])]),
           (''derivativeTable'', JObj [(''transactions'', JArr [tx_other])])]"

definition grp_bare :: json where
  "grp_bare = JObj [(''documentType'', JStr ''4'')]"

definition bare_meta :: group_meta where
  "bare_meta =
     \<lparr>doc_type = JStr ''4'', footnotes_text = [], remarks_val = JNull,
      officer_title = JNull, other_text = JNull\<rparr>"

definition sample_response :: json where
  "sample_response = JObj [(''transactions'', JArr [grp_full, grp_bare])]"

definition sample_rows :: "json trade_record list" where
  "sample_rows =
     [\<lparr>ticker = JStr ''TSLA'', transactionDate = JStr ''2024-01-02'',
       transactionCode = JStr ''P'', transactionDesc = ''Purchase'', shares = JNum 100,
       pricePerShare = JNum 10, officerTitle = JNull\<rparr>,
      \<lparr>ticker = JStr ''TSLA'', transactionDate = JNull,
       transactionCode = JStr ''S'', transactionDesc = ''Sale'', shares = JNull,
       pricePerShare = JNull, officerTitle = JNull\<rparr>,
      \<lparr>ticker = JStr ''TSLA'', transactionDate = JNull,
       transactionCode = JStr ''Z'', transactionDesc = ''Unknown'', shares = JNull,
       pricePerShare = JNull, officerTitle = JNull\<rparr>]"

definition not_found :: response where
  "not_found = \<lparr>status_code = 404, body_text = ''Not Found'', parsed = Inl JSONDecodeError\<rparr>"

definition three_listed :: "string \<Rightarrow> bool" where
  "three_listed t \<longleftrightarrow> t = ''AAPL'' \<or> t = ''MSFT'' \<or> t = ''TSLA''"

definition none_listed :: "string \<Rightarrow> bool" where
  "none_listed t \<longleftrightarrow> False"

subsection \<open>Momentum\<close>

text \<open>Records as the extractor emits them, with the date as the filing has it.\<close>

definition abc_trade :: "json trade_record" where
  "abc_trade =
     \<lparr>ticker = JStr ''ABC'', transactionDate = JStr ''2024-01-02'',
      transactionCode = JStr ''P'', transactionDesc = ''Purchase'', shares = JNum 500,
      pricePerShare = JNum 100, officerTitle = JStr ''CFO''\<rparr>"

definition xyz_trade :: "json trade_record" where
  "xyz_trade =
     \<lparr>ticker = JStr ''XYZ'', transactionDate = JStr ''2024-01-03'',
      transactionCode = JStr ''S'', transactionDesc = ''Sale'', shares = JNum 20,
      pricePerShare = JNull, officerTitle = JNull\<rparr>"

definition undated_trade :: "json trade_record" where
  "undated_trade =
     \<lparr>ticker = JStr ''ABC'', transactionDate = JNull,
      transactionCode = JStr ''S'', transactionDesc = ''Sale'', shares = JNull,
      pricePerShare = JNull, officerTitle = JNull\<rparr>"

definition abc_aware_trade :: "json trade_record" where
  "abc_aware_trade = abc_trade\<lparr>transactionDate := JStr ''2024-01-02T10:00:00-05:00''\<rparr>"

definition xyz_aware_trade :: "json trade_record" where
  "xyz_aware_trade = xyz_trade\<lparr>transactionDate := JStr ''2024-01-03T09:30:00-05:00''\<rparr>"

definition late_aware_trade :: "json trade_record" where
  "late_aware_trade = abc_trade\<lparr>transactionDate := JStr ''2024-01-02T22:00:00-05:00''\<rparr>"

text \<open>
  \<^verbatim>\<open>pd.to_datetime\<close> on the dates of the examples: a JSON null is NaT, any other
  value than the five strings is taken as one that does not parse; aware and
  naive values in one column raise, aware values of differing offsets give a
  column of plain objects.
\<close>

datatype parsed_cell = Unparsed | Missing | Parsed int "int option"

definition example_cell :: "json \<Rightarrow> parsed_cell" where
  "example_cell v =
     (if v = JNull then Missing
      else if v = JStr ''2024-01-02'' then Parsed (at_time (ymd 2024 1 2) 0 0) None
      else if v = JStr ''2024-01-03'' then Parsed (at_time (ymd 2024 1 3) 0 0) None
      else if v = JStr ''2024-01-02T10:00:00-05:00''
        then Parsed (at_time (ymd 2024 1 2) 10 0) (Some (- 18000))
      else if v = JStr ''2024-01-03T09:30:00-05:00''
        then Parsed (at_time (ymd 2024 1 3) 9 30) (Some (- 18000))
      else if v = JStr ''2024-01-02T22:00:00-05:00''
        then Parsed (at_time (ymd 2024 1 2) 22 0) (Some (- 18000))
      else Unparsed)"

fun cell_value :: "parsed_cell \<Rightarrow> int option" where
  "cell_value (Parsed w tz) = Some w"
| "cell_value Missing = None"
| "cell_value Unparsed = None"

fun cell_zones :: "parsed_cell list \<Rightarrow> int option list" where
  "cell_zones [] = []"
| "cell_zones (Parsed w tz # cells) = List.insert tz (cell_zones cells)"
| "cell_zones (Missing # cells) = cell_zones cells"
| "cell_zones (Unparsed # cells) = cell_zones cells"

definition example_to_datetime :: "json list \<Rightarrow> parsed_column" where
  "example_to_datetime column =
     (let cells = map example_cell column
      in if Unparsed \<in> set cells then ParseRaises ValueError
         else case cell_zones cells of
                [] \<Rightarrow> DatetimeColumn None (map cell_value cells)
              | [tz] \<Rightarrow> DatetimeColumn tz (map cell_value cells)
              | tz # tz' # tzs \<Rightarrow>
                  if None \<in> set (cell_zones cells) then ParseRaises ValueError
                  else ObjectColumn)"

text \<open>The parsed rows of the examples.\<close>

definition abc_row :: "int option trade_record" where
  "abc_row = with_date abc_trade (Some (ymd 2024 1 2))"

definition xyz_row :: "int option trade_record" where
  "xyz_row = with_date xyz_trade (Some (ymd 2024 1 3))"

definition undated_row :: "int option trade_record" where
  "undated_row = with_date undated_trade None"

text \<open>10:00 and 22:00 on 2024-01-02, and 09:30 on 2024-01-03, at five hours behind UTC.\<close>

definition ten_eastern :: timestamp where
  "ten_eastern = \<lparr>wall = at_time (ymd 2024 1 2) 10 0, tzinfo = Some (- 18000)\<rparr>"

definition late_eastern :: timestamp where
  "late_eastern = \<lparr>wall = at_time (ymd 2024 1 2) 22 0, tzinfo = Some (- 18000)\<rparr>"

definition abc_aware_row :: "timestamp option trade_record" where
  "abc_aware_row = with_date abc_trade (Some ten_eastern)"

definition xyz_aware_row :: "timestamp option trade_record" where
  "xyz_aware_row =
     with_date xyz_trade (Some \<lparr>wall = at_time (ymd 2024 1 3) 9 30, tzinfo = Some (- 18000)\<rparr>)"

definition late_aware_row :: "timestamp option trade_record" where
  "late_aware_row = with_date abc_trade (Some late_eastern)"

definition late_day_row :: "int option trade_record" where
  "late_day_row = with_date abc_trade (Some (ymd 2024 1 2))"

text \<open>Price histories: the closes of the specification's example for ABC, none for XYZ.\<close>

definition stub_history ::
    "json \<Rightarrow> int option \<Rightarrow> int option \<Rightarrow> py_error + (timestamp \<times> float64) list" where
  "stub_history tkr start end_date =
     (if tkr = JStr ''ABC''
      then Inr [(midnight (ymd 2024 1 2), Finite 100), (midnight (ymd 2024 1 15), Finite 110)]
      else if tkr = JStr ''XYZ'' then Inr []
      else Inl ValueError)"

definition stub_hour_history ::
    "json \<Rightarrow> timestamp option \<Rightarrow> timestamp option
      \<Rightarrow> py_error + (timestamp \<times> float64) list" where
  "stub_hour_history tkr start end_dt =
     (if tkr = JStr ''ABC''
      then Inr [(ten_eastern, Finite 50),
                (\<lparr>wall = at_time (ymd 2024 1 2) 11 30, tzinfo = Some (- 18000)\<rparr>, Finite 75)]
      else if tkr = JStr ''XYZ'' then Inr []
      else Inl ValueError)"

definition one_close_history ::
    "json \<Rightarrow> int option \<Rightarrow> int option \<Rightarrow> py_error + (timestamp \<times> float64) list" where
  "one_close_history tkr start end_date = Inr [(midnight (ymd 2024 1 5), Finite 42)]"

definition zero_close_history ::
    "json \<Rightarrow> int option \<Rightarrow> int option \<Rightarrow> py_error + (timestamp \<times> float64) list" where
  "zero_close_history tkr start end_date = Inr [(midnight (ymd 2024 1 5), Finite 0)]"

text \<open>Price histories with one observation, at the start they are asked for.\<close>

definition start_history ::
    "json \<Rightarrow> int option \<Rightarrow> int option \<Rightarrow> py_error + (timestamp \<times> float64) list" where
  "start_history tkr start end_date =
     (case start of None \<Rightarrow> Inr [] | Some d \<Rightarrow> Inr [(midnight d, Finite 42)])"

definition start_hour_history ::
    "json \<Rightarrow> timestamp option \<Rightarrow> timestamp option
      \<Rightarrow> py_error + (timestamp \<times> float64) list" where
  "start_hour_history tkr start end_dt =
     (case start of None \<Rightarrow> Inr [] | Some t \<Rightarrow> Inr [(t, Finite 42)])"

section \<open>Loops and sequencing\<close>

lemma ebind_simps [simp]:
  "ebind (Inl e) f = Inl e" "ebind (Inr v) f = f v"
  by (simp_all add: ebind_def)

lemma ebind_Inr_iff: "ebind m f = Inr y \<longleftrightarrow> (\<exists>v. m = Inr v \<and> f v = Inr y)"
  by (cases m) simp_all

lemma map_err_Inr_iff: "map_err f xs = Inr ys \<longleftrightarrow> map f xs = map Inr ys"
proof (induction xs arbitrary: ys)
  case Nil
  show ?case by auto
next
  case (Cons x xs)
  show ?case
  proof (cases "f x")
    case (Inl e)
    then show ?thesis by (cases ys) auto
  next
    case (Inr y)
    show ?thesis
    proof (cases "map_err f xs")
      case (Inl e)
      with Inr Cons.IH show ?thesis by (cases ys) auto
    next
      case Inr2: (Inr zs)
      with Inr Cons.IH [of zs] Cons.IH show ?thesis by (cases ys) auto
    qed
  qed
qed

text \<open>A loop that appends one element per iteration is a comprehension.\<close>

lemma for_each_append:
  "for_each (\<lambda>x acc. ebind (f x) (\<lambda>r. Inr (acc @ [r]))) xs acc
     = ebind (map_err f xs) (\<lambda>rs. Inr (acc @ rs))"
proof (induction xs arbitrary: acc)
  case Nil
  show ?case by simp
next
  case (Cons x xs)
  show ?case
  proof (cases "f x")
    case (Inl e)
    then show ?thesis by simp
  next
    case (Inr r)
    then show ?thesis
      by (cases "map_err f xs") (simp_all add: Cons.IH)
  qed
qed

text \<open>A loop that appends a block per iteration collects the blocks in order.\<close>

lemma for_each_collect:
  assumes "\<And>x acc. body x acc = ebind (g x) (\<lambda>rs. Inr (acc @ rs))"
  shows "for_each body xs acc = ebind (map_err g xs) (\<lambda>rss. Inr (acc @ concat rss))"
proof (induction xs arbitrary: acc)
  case Nil
  show ?case by simp
next
  case (Cons x xs)
  show ?case
  proof (cases "g x")
    case (Inl e)
    then show ?thesis by (simp add: assms [of x acc])
  next
    case (Inr rs)
    then show ?thesis
      by (cases "map_err g xs") (simp_all add: assms [of x acc] Cons.IH)
  qed
qed

lemma map_err_total:
  assumes "\<And>x. \<exists>y. f x = Inr y"
  shows "\<exists>ys. map_err f xs = Inr ys \<and> length ys = length xs
           \<and> (\<forall>i < length xs. f (xs ! i) = Inr (ys ! i))"
proof (induction xs)
  case Nil
  show ?case by simp
next
  case (Cons x xs)
  from assms obtain y where y: "f x = Inr y" by blast
  from Cons.IH obtain ys where ys: "map_err f xs = Inr ys" "length ys = length xs"
    "\<forall>i < length xs. f (xs ! i) = Inr (ys ! i)" by blast
  have "map_err f (x # xs) = Inr (y # ys)" using y ys(1) by simp
  moreover have "length (y # ys) = length (x # xs)" using ys(2) by simp
  moreover have "\<forall>i < length (x # xs). f ((x # xs) ! i) = Inr ((y # ys) ! i)"
  proof (intro allI impI)
    fix i assume "i < length (x # xs)"
    then show "f ((x # xs) ! i) = Inr ((y # ys) ! i)"
      using y ys(3) by (cases i) simp_all
  qed
  ultimately show ?case by blast
qed

section \<open>Extraction: count and order of the records\<close>

lemma enhanced_group_collect:
  "enhanced_group grp acc = ebind (enhanced_group_out grp) (\<lambda>rs. Inr (acc @ rs))"
  unfolding enhanced_group_def enhanced_group_out_def for_each_append
  by (auto simp: ebind_def split: sum.splits)

lemma enhanced_group_out_Inr:
  assumes "enhanced_group_out grp = Inr rs"
  shows "map Inr rs =
      map (enhanced_record_of grp ''nonDerivative'') (transactions_in grp ''nonDerivativeTable'')
    @ map (enhanced_record_of grp ''derivative'') (transactions_in grp ''derivativeTable'')"
  using assms
  unfolding enhanced_group_out_def enhanced_record_of_def transactions_in_def
  by (auto simp: ebind_Inr_iff map_err_Inr_iff)

lemma basic_group_collect:
  "basic_group query grp acc = ebind (basic_group_out query grp) (\<lambda>rs. Inr (acc @ rs))"
  unfolding basic_group_def basic_group_out_def for_each_append
  by (auto simp: ebind_def split: sum.splits)

lemma basic_group_out_Inr:
  assumes "basic_group_out query grp = Inr rs"
  shows "map Inr rs =
      map (basic_record_of query grp) (transactions_in grp ''nonDerivativeTable'')
    @ map (basic_record_of query grp) (transactions_in grp ''derivativeTable'')"
  using assms
  unfolding basic_group_out_def basic_record_of_def transactions_in_def
  by (auto simp: ebind_Inr_iff map_err_Inr_iff)

lemma collect_groups:
  assumes out: "map_err g gs = Inr rss"
    and step: "\<And>grp rs. g grp = Inr rs \<Longrightarrow> map Inr rs = h grp"
  shows "map Inr (concat rss) = concat (map h gs)"
  using out
proof (induction gs arbitrary: rss)
  case Nil
  then show ?case by simp
next
  case (Cons grp gs)
  from Cons.prems obtain rs rest where
    g: "g grp = Inr rs" and r: "map_err g gs = Inr rest" and rss: "rss = rs # rest"
    by (auto split: sum.splits)
  from Cons.IH [OF r] step [OF g] rss show ?case by simp
qed

lemma length_concat_groups:
  assumes "map Inr out = concat (map (\<lambda>g. map (f g) (a g) @ map (f' g) (b g)) gs)"
  shows "length out = (\<Sum>g\<leftarrow>gs. length (a g) + length (b g))"
proof -
  have "length out = length (concat (map (\<lambda>g. map (f g) (a g) @ map (f' g) (b g)) gs))"
    using arg_cong [OF assms, of length] by simp
  also have "\<dots> = (\<Sum>g\<leftarrow>gs. length (a g) + length (b g))"
    by (simp add: length_concat comp_def)
  finally show ?thesis by simp
qed

lemma enhanced_records_order:
  assumes "enhanced_records data = Inr out"
  shows "map Inr out = concat (map (\<lambda>grp.
          map (enhanced_record_of grp ''nonDerivative'') (transactions_in grp ''nonDerivativeTable'')
        @ map (enhanced_record_of grp ''derivative'') (transactions_in grp ''derivativeTable''))
        (filing_groups data))"
proof -
  from assms obtain gs rss where gs: "tx_groups data = Inr gs"
    and rss: "map_err enhanced_group_out gs = Inr rss" and out: "out = concat rss"
    unfolding enhanced_records_def
    by (auto simp: ebind_Inr_iff
        for_each_collect [of enhanced_group enhanced_group_out, OF enhanced_group_collect])
  have fg: "filing_groups data = gs" by (simp add: filing_groups_def gs)
  show ?thesis
    unfolding fg out by (rule collect_groups [OF rss enhanced_group_out_Inr])
qed

lemma basic_records_order:
  assumes "basic_records query data = Inr rows"
  shows "map Inr rows = concat (map (\<lambda>grp.
          map (basic_record_of query grp) (transactions_in grp ''nonDerivativeTable'')
        @ map (basic_record_of query grp) (transactions_in grp ''derivativeTable''))
        (filing_groups data))"
proof -
  from assms obtain gs rss where gs: "tx_groups data = Inr gs"
    and rss: "map_err (basic_group_out query) gs = Inr rss" and out: "rows = concat rss"
    unfolding basic_records_def
    by (auto simp: ebind_Inr_iff
        for_each_collect [of "basic_group query" "basic_group_out query", OF basic_group_collect])
  have fg: "filing_groups data = gs" by (simp add: filing_groups_def gs)
  show ?thesis
    unfolding fg out by (rule collect_groups [OF rss basic_group_out_Inr])
qed


lemmas sample_defs =
  sample_response_def grp_full_def grp_bare_def tx_purchase_def tx_sale_def tx_other_def

lemmas extraction_defs =
  tx_groups_def table_transactions_def py_or_def symbol_of_def make_row_def
  meta_of_def footnotes_of_def extract_tx_def

lemma sample_basic_records:
  "basic_records ''issuer.tradingSymbol:TSLA'' sample_response = Inr sample_rows"
  by (simp add: basic_records_def basic_group_def extraction_defs sample_defs sample_rows_def
      TRANSACTION_CODE_MEANINGS_def)

lemma sample_enhanced_records:
  "\<exists>out. enhanced_records sample_response = Inr out"
  by (simp add: enhanced_records_def enhanced_group_def extraction_defs sample_defs)

lemma sample_counts:
  "(\<Sum>grp\<leftarrow>filing_groups sample_response.
      length (transactions_in grp ''nonDerivativeTable'')
    + length (transactions_in grp ''derivativeTable'')) = 3"
  by (simp add: filing_groups_def transactions_in_def extraction_defs sample_defs)



section \<open>Extraction: the description of a transaction code\<close>

lemma meanings_get_Inr: "meanings_get code = Inr d \<Longrightarrow> d = vocabulary_entry code"
  by (cases code) (auto simp: vocabulary_entry_def)

lemma meanings_get_hashable: "hashable v \<Longrightarrow> meanings_get v = Inr (vocabulary_entry v)"
  by (cases v) (simp_all add: vocabulary_entry_def)

lemma make_row_desc:
  assumes "make_row s grp tx = Inr r"
  shows "transactionDesc r = vocabulary_entry (transactionCode r)"
  using assms unfolding make_row_def
  by (auto simp: ebind_Inr_iff dest: meanings_get_Inr)

lemma in_flattened:
  fixes f :: "'g \<Rightarrow> 't \<Rightarrow> 'e + 'r"
  assumes eq: "map Inr rows = concat (map (\<lambda>g. map (f g) (a g) @ map (f g) (b g)) gs)"
    and r: "r \<in> set rows"
  shows "\<exists>g tx. f g tx = Inr r"
proof -
  from r have "(Inr r :: 'e + 'r) \<in> Inr ` set rows" by (rule imageI)
  then have "(Inr r :: 'e + 'r) \<in> set (map Inr rows)" by (simp only: set_map)
  then have "Inr r \<in> set (concat (map (\<lambda>g. map (f g) (a g) @ map (f g) (b g)) gs))"
    by (simp only: eq)
  then show ?thesis by (auto intro: sym)
qed

text \<open>
  C7. Every record the basic extractor emits carries, as its description, the
  vocabulary's entry for its transaction code, and \<open>Unknown\<close> when the code is
  not a key of the vocabulary: code P gives Purchase, code Z gives Unknown. The
  vocabulary is a constant: no function of the scripts takes or returns it.
\<close>

theorem description_is_vocabulary_entry:
  "(basic_records query data = Inr rows \<longrightarrow>
      (\<forall>r \<in> set rows. transactionDesc r = vocabulary_entry (transactionCode r)))
   \<and> vocabulary_entry (JStr ''P'') = ''Purchase''
   \<and> vocabulary_entry (JStr ''Z'') = ''Unknown''"
proof (intro conjI impI ballI)
  fix r
  assume a: "basic_records query data = Inr rows" and r: "r \<in> set rows"
  from in_flattened [OF basic_records_order [OF a] r]
  obtain grp tx where "basic_record_of query grp tx = Inr r" by blast
  then obtain s where "make_row s grp tx = Inr r"
    by (auto simp: basic_record_of_def ebind_Inr_iff)
  then show "transactionDesc r = vocabulary_entry (transactionCode r)"
    by (rule make_row_desc)
next
  show "vocabulary_entry (JStr ''P'') = ''Purchase''"
    by (simp add: vocabulary_entry_def TRANSACTION_CODE_MEANINGS_def)
  show "vocabulary_entry (JStr ''Z'') = ''Unknown''"
    by (simp add: vocabulary_entry_def TRANSACTION_CODE_MEANINGS_def)
qed

theorem description_is_vocabulary_entry_witness:
  "basic_records ''issuer.tradingSymbol:TSLA'' sample_response = Inr sample_rows
   \<and> sample_rows \<noteq> []
   \<and> map transactionDesc sample_rows
       = map (\<lambda>r. vocabulary_entry (transactionCode r)) sample_rows
   \<and> map transactionDesc sample_rows = [''Purchase'', ''Sale'', ''Unknown'']"
proof -
  from description_is_vocabulary_entry
         [of "''issuer.tradingSymbol:TSLA''" sample_response sample_rows]
       sample_basic_records
  have "\<forall>r \<in> set sample_rows. transactionDesc r = vocabulary_entry (transactionCode r)"
    by blast
  then have "map transactionDesc sample_rows
       = map (\<lambda>r. vocabulary_entry (transactionCode r)) sample_rows"
    by simp
  moreover have "sample_rows \<noteq> []"
    and "map transactionDesc sample_rows = [''Purchase'', ''Sale'', ''Unknown'']"
    by (simp_all add: sample_rows_def)
  ultimately show ?thesis using sample_basic_records by blast
qed

section \<open>The request: failures\<close>

text \<open>
  C3, as the code has it. When the request returns a response with a 4xx or 5xx
  status, each fetcher returns the empty result, with no exception, and prints
  the status and the body. A request that itself raises is a different matter
  for the enhanced fetcher, which makes the request outside its \<^verbatim>\<open>try\<close>: the
  exception reaches the caller.
\<close>

theorem http_error_gives_empty_result:
  "(400 \<le> status_code resp \<and> status_code resp < 600 \<longrightarrow>
      fetch_insider_trades (Returns resp) query
        = ([ErrorFetchingFor query (status_code resp) (body_text resp)], Inr [])
    \<and> fetch_insider_trades_enhanced (Returns resp)
        = ([HttpError (status_code resp), ResponseBody (body_text resp)], Inr []))
   \<and> fetch_insider_trades_enhanced (Raises e) = ([], Inl e)"
  by (simp add: fetch_insider_trades_def fetch_insider_trades_enhanced_def try_request_def
      raise_for_status_def)

theorem http_error_gives_empty_result_witness:
  "400 \<le> status_code not_found \<and> status_code not_found < 600
   \<and> fetch_insider_trades (Returns not_found) ''issuer.tradingSymbol:TSLA''
       = ([ErrorFetchingFor ''issuer.tradingSymbol:TSLA'' 404 ''Not Found''], Inr [])
   \<and> fetch_insider_trades_enhanced (Returns not_found)
       = ([HttpError 404, ResponseBody ''Not Found''], Inr [])"
proof -
  have h: "400 \<le> status_code not_found \<and> status_code not_found < 600"
    by (simp add: not_found_def)
  with http_error_gives_empty_result [of not_found "''issuer.tradingSymbol:TSLA''" ConnectionError]
  show ?thesis by (simp add: not_found_def)
qed

text \<open>
  The claim as the specification states it fails on a transport error: the
  enhanced fetcher returns no empty result, the exception propagates.
\<close>

theorem transport_error_propagates:
  "fetch_insider_trades_enhanced (Raises ConnectionError) = ([], Inl ConnectionError)"
  by (simp add: fetch_insider_trades_enhanced_def)

text \<open>
  The basic fetcher catches the transport error, and its handler then fails on
  the unbound \<^verbatim>\<open>resp\<close>: the caller gets UnboundLocalError, and nothing is printed.
\<close>

lemma fetch_insider_trades_unbound_resp:
  "fetch_insider_trades (Raises e) query = ([], Inl UnboundLocalError)"
  by (simp add: fetch_insider_trades_def try_request_def)

section \<open>The credential: what the guards let through\<close>

text \<open>
  C6, evaluated on the code. With no \<^verbatim>\<open>API_KEY\<close> in the environment the value read
  is the default \<^verbatim>\<open>"API_KEY"\<close>; neither the guard of the day-window script nor the
  guard of the expanded test script stops it, and both scripts proceed to their
  requests with the placeholder as credential.
\<close>

theorem placeholder_credential_proceeds:
  "deep_dive_startup Map.empty = Proceed ''API_KEY''
   \<and> expanded_list_startup Map.empty = Proceed ''API_KEY''"
  by (simp add: deep_dive_startup_def expanded_list_startup_def getenv_def)

text \<open>The guards do fire on the one value each of them tests for.\<close>

lemma guards_fire:
  "deep_dive_startup [''API_KEY'' \<mapsto> []] = Halt ValueError"
  "expanded_list_startup [''API_KEY'' \<mapsto> ''YOUR_REAL_KEY_HERE''] = Halt ValueError"
  "env [] = None \<Longrightarrow> return_post_startup env = Halt ValueError"
  by (simp_all add: deep_dive_startup_def expanded_list_startup_def return_post_startup_def
      getenv_def)

section \<open>Ticker sampling\<close>

lemma fromkeys_distinct_aux:
  "distinct (acc @ xs) \<Longrightarrow>
   foldl (\<lambda>keys x. if x \<in> set keys then keys else keys @ [x]) acc xs = acc @ xs"
  by (induction xs arbitrary: acc) auto

lemma fromkeys_distinct: "distinct xs \<Longrightarrow> fromkeys xs = xs"
  using fromkeys_distinct_aux [of "[]" xs] by (simp add: fromkeys_def)

lemma random_sample_ok:
  assumes k: "0 \<le> k" "k \<le> int (length population)"
    and p: "sample_positions (length population) k picks"
    and d: "distinct population"
  shows "\<exists>ys. random_sample picks population k = Inr ys \<and> int (length ys) = k
           \<and> distinct ys \<and> set ys \<subseteq> set population"
proof -
  let ?ys = "map (\<lambda>i. population ! i) picks"
  from p have len: "int (length picks) = k" and dp: "distinct picks"
    and rng: "\<forall>i \<in> set picks. i < length population"
    by (simp_all add: sample_positions_def list_all_iff)
  have "random_sample picks population k = Inr ?ys"
    using k by (simp add: random_sample_def)
  moreover have "int (length ?ys) = k" using len by simp
  moreover have "distinct ?ys"
    unfolding distinct_map
  proof
    show "distinct picks" by (rule dp)
    show "inj_on (\<lambda>i. population ! i) (set picks)"
      using rng d by (auto simp: inj_on_def nth_eq_iff_index_eq)
  qed
  moreover have "set ?ys \<subseteq> set population" using rng by auto
  ultimately show ?thesis by blast
qed

lemma distinct_mega: "distinct mega_cap_universe"
  by (simp add: mega_cap_universe_def)

lemma distinct_small: "distinct small_cap_universe"
  by (simp add: small_cap_universe_def)

lemma length_small: "length small_cap_universe = 20"
  by (simp add: small_cap_universe_def)

text \<open>
  C8, as the code has it. The large-capitalization sampler draws from the listed
  candidates: asked for more than there are, it returns all of them, each once,
  with no error; asked for a size between zero and their number, it returns
  that many distinct listed candidates. The small-capitalization sampler draws
  from its whole list of twenty without asking whether a candidate is listed,
  and raises ValueError when asked for more than twenty.
\<close>

theorem sampling_by_pool:
  "(int (length (listed_subset is_listed mega_cap_universe)) < sample_size \<longrightarrow>
      get_random_mega_caps is_listed picks sample_size
        = Inr (listed_subset is_listed mega_cap_universe)
      \<and> distinct (listed_subset is_listed mega_cap_universe))
 \<and> (0 \<le> sample_size
      \<and> sample_size \<le> int (length (listed_subset is_listed mega_cap_universe))
      \<and> sample_positions (length (listed_subset is_listed mega_cap_universe)) sample_size picks \<longrightarrow>
      (\<exists>ys. get_random_mega_caps is_listed picks sample_size = Inr ys
         \<and> int (length ys) = sample_size \<and> distinct ys
         \<and> set ys \<subseteq> set (listed_subset is_listed mega_cap_universe)))
 \<and> (0 \<le> k \<and> k \<le> 20 \<and> sample_positions 20 k picks' \<longrightarrow>
      (\<exists>ys. get_random_small_caps picks' k = Inr ys
         \<and> int (length ys) = k \<and> distinct ys \<and> set ys \<subseteq> set small_cap_universe))
 \<and> (20 < k' \<longrightarrow> get_random_small_caps picks'' k' = Inl ValueError)"
proof -
  let ?listed = "listed_subset is_listed mega_cap_universe"
  have fk: "fromkeys mega_cap_universe = mega_cap_universe"
    by (rule fromkeys_distinct [OF distinct_mega])
  have dl: "distinct ?listed"
    by (simp add: listed_subset_def distinct_mega)
  have g: "get_random_mega_caps is_listed picks sample_size =
      (if int (length ?listed) < sample_size then Inr ?listed
       else random_sample picks ?listed sample_size)"
    by (simp add: get_random_mega_caps_def fk listed_subset_def Let_def)
  have 1: "int (length ?listed) < sample_size \<longrightarrow>
      get_random_mega_caps is_listed picks sample_size = Inr ?listed \<and> distinct ?listed"
    using g dl by simp
  have 2: "0 \<le> sample_size \<and> sample_size \<le> int (length ?listed)
      \<and> sample_positions (length ?listed) sample_size picks \<longrightarrow>
      (\<exists>ys. get_random_mega_caps is_listed picks sample_size = Inr ys
         \<and> int (length ys) = sample_size \<and> distinct ys \<and> set ys \<subseteq> set ?listed)"
  proof
    assume a: "0 \<le> sample_size \<and> sample_size \<le> int (length ?listed)
      \<and> sample_positions (length ?listed) sample_size picks"
    then have "get_random_mega_caps is_listed picks sample_size
        = random_sample picks ?listed sample_size"
      using g by simp
    with random_sample_ok [of sample_size ?listed picks] a dl show
      "\<exists>ys. get_random_mega_caps is_listed picks sample_size = Inr ys
         \<and> int (length ys) = sample_size \<and> distinct ys \<and> set ys \<subseteq> set ?listed"
      by simp
  qed
  have 3: "0 \<le> k \<and> k \<le> 20 \<and> sample_positions 20 k picks' \<longrightarrow>
      (\<exists>ys. get_random_small_caps picks' k = Inr ys
         \<and> int (length ys) = k \<and> distinct ys \<and> set ys \<subseteq> set small_cap_universe)"
    using random_sample_ok [of k small_cap_universe picks'] distinct_small
    by (simp add: get_random_small_caps_def length_small)
  have 4: "20 < k' \<longrightarrow> get_random_small_caps picks'' k' = Inl ValueError"
    by (simp add: get_random_small_caps_def random_sample_def length_small)
  from 1 2 3 4 show ?thesis by blast
qed

lemma three_listed_subset:
  "listed_subset three_listed mega_cap_universe = [''AAPL'', ''MSFT'', ''TSLA'']"
  by (simp add: listed_subset_def three_listed_def mega_cap_universe_def)

theorem sampling_by_pool_witness:
  "int (length (listed_subset three_listed mega_cap_universe)) < 20
   \<and> get_random_mega_caps three_listed [] 20 = Inr [''AAPL'', ''MSFT'', ''TSLA'']
   \<and> sample_positions (length (listed_subset three_listed mega_cap_universe)) 2 [2, 0]
   \<and> get_random_mega_caps three_listed [2, 0] 2 = Inr [''TSLA'', ''AAPL'']
   \<and> sample_positions 20 2 [0, 1]
   \<and> get_random_small_caps [0, 1] 2 = Inr [''AAXN'', ''CZR'']
   \<and> get_random_small_caps [] 21 = Inl ValueError"
proof -
  have h1: "int (length (listed_subset three_listed mega_cap_universe)) < 20"
    by (simp add: three_listed_subset)
  have h2: "sample_positions (length (listed_subset three_listed mega_cap_universe)) 2 [2, 0]"
    by (simp add: three_listed_subset sample_positions_def)
  have h3: "sample_positions 20 2 [0, 1]"
    by (simp add: sample_positions_def)
  from sampling_by_pool [of three_listed 20 "[]" 2 "[0, 1]" 21 "[]"] h1 h3
  have a: "get_random_mega_caps three_listed [] 20 = Inr [''AAPL'', ''MSFT'', ''TSLA'']"
    and c: "\<exists>ys. get_random_small_caps [0, 1] 2 = Inr ys"
    and d: "get_random_small_caps [] 21 = Inl ValueError"
    by (auto simp: three_listed_subset)
  from sampling_by_pool [of three_listed 2 "[2, 0]" 2 "[0, 1]" 21 "[]"] h2
  have b: "\<exists>ys. get_random_mega_caps three_listed [2, 0] 2 = Inr ys"
    by (auto simp: three_listed_subset)
  have b': "get_random_mega_caps three_listed [2, 0] 2 = Inr [''TSLA'', ''AAPL'']"
    using b by (simp add: get_random_mega_caps_def fromkeys_distinct [OF distinct_mega]
        three_listed_subset [unfolded listed_subset_def] random_sample_def)
  have c': "get_random_small_caps [0, 1] 2 = Inr [''AAXN'', ''CZR'']"
    using c by (simp add: get_random_small_caps_def random_sample_def small_cap_universe_def)
  from h1 a h2 b' h3 c' d show ?thesis by blast
qed

text \<open>
  The claim as the specification states it fails on the small-capitalization
  pool: a request for 21 raises, and with no candidate listed a request for 2
  returns two candidates, not the (empty) listed subset.
\<close>

theorem small_cap_sampling_ignores_listing:
  "get_random_small_caps [] 21 = Inl ValueError
   \<and> listed_subset none_listed small_cap_universe = []
   \<and> get_random_small_caps [0, 1] 2 = Inr [''AAXN'', ''CZR'']"
  by (simp add: get_random_small_caps_def random_sample_def small_cap_universe_def
      listed_subset_def none_listed_def)


section \<open>Extraction: missing fields\<close>

lemma shaped_obj: "shaped v (k # ks) \<Longrightarrow> \<exists>kv. v = JObj kv"
  by (cases v) simp_all

lemma get_scalar:
  assumes "shaped v [k]"
  shows "dict_get v k JNull = Inr (field_or_null (at_path v [k]))"
proof -
  from shaped_obj [OF assms] obtain kv where "v = JObj kv" by blast
  then show ?thesis by (cases "map_of kv k") (simp_all add: field_or_null_def)
qed

text \<open>Reading a cluster with the default \<open>{}\<close>, then a field of it, without and with \<^verbatim>\<open>or {}\<close>.\<close>

lemma get_cluster:
  assumes "shaped tx [c, f]"
  shows "\<exists>c0. dict_get tx c (JObj []) = Inr c0
           \<and> (\<forall>g. dict_get c0 g JNull = Inr (field_or_null (at_path tx [c, g])))"
proof -
  from shaped_obj [OF assms] obtain t where tx: "tx = JObj t" by blast
  show ?thesis
  proof (cases "map_of t c")
    case None
    then show ?thesis by (simp add: tx field_or_null_def)
  next
    case (Some v)
    with assms tx have "shaped v [f]" by simp
    from shaped_obj [OF this] obtain kv where v: "v = JObj kv" by blast
    have "dict_get (JObj kv) g JNull = Inr (field_or_null (at_path (JObj t) [c, g]))" for g
      by (cases "map_of kv g") (simp_all add: field_or_null_def Some v)
    then show ?thesis by (simp add: tx Some v)
  qed
qed

lemma get_cluster_or:
  assumes "shaped tx [c, f]"
  shows "\<exists>c0. dict_get tx c (JObj []) = Inr c0
           \<and> (\<forall>g. dict_get (py_or c0 (JObj [])) g JNull = Inr (field_or_null (at_path tx [c, g])))"
proof -
  from shaped_obj [OF assms] obtain t where tx: "tx = JObj t" by blast
  show ?thesis
  proof (cases "map_of t c")
    case None
    then show ?thesis by (simp add: tx py_or_def field_or_null_def)
  next
    case (Some v)
    with assms tx have "shaped v [f]" by simp
    from shaped_obj [OF this] obtain kv where v: "v = JObj kv" by blast
    have "dict_get (py_or (JObj kv) (JObj [])) g JNull
            = Inr (field_or_null (at_path (JObj t) [c, g]))" for g
      by (cases kv; cases "map_of kv g") (simp_all add: py_or_def field_or_null_def Some v)
    then show ?thesis by (simp add: tx Some v)
  qed
qed

lemma get_path3:
  assumes "shaped grp [a, b, c]"
  shows "\<exists>ro rel. dict_get grp a (JObj []) = Inr ro \<and> dict_get ro b (JObj []) = Inr rel
           \<and> (\<forall>g. dict_get rel g JNull = Inr (field_or_null (at_path grp [a, b, g])))
           \<and> (\<forall>g. dict_get (py_or rel (JObj [])) g JNull
                  = Inr (field_or_null (at_path grp [a, b, g])))"
proof -
  from shaped_obj [OF assms] obtain kv where grp: "grp = JObj kv" by blast
  show ?thesis
  proof (cases "map_of kv a")
    case None
    then show ?thesis by (simp add: grp py_or_def field_or_null_def)
  next
    case (Some v)
    with assms grp have sh: "shaped v [b, c]" by simp
    from get_cluster [OF sh] get_cluster_or [OF sh] show ?thesis
      by (auto simp: grp Some)
  qed
qed

lemma extract_tx_absent:
  assumes "shaped tx [''coding'', ''code'']" "shaped tx [''amounts'', ''shares'']"
    "shaped tx [''postTransactionAmounts'', ''sharesOwnedFollowingTransaction'']"
  shows "extract_tx m category tx =
     Inr \<lparr>documentType = doc_type m, footnotes = footnotes_text m,
          remarks = remarks_val m, enhanced_record.officerTitle = officer_title m,
          otherText = other_text m, transactionCategory = category,
          securityTitle = field_or_null (at_path tx [''securityTitle'']),
          enhanced_record.transactionDate = field_or_null (at_path tx [''transactionDate'']),
          enhanced_record.transactionCode = field_or_null (at_path tx [''coding'', ''code'']),
          equitySwapInvolved = field_or_null (at_path tx [''coding'', ''equitySwapInvolved'']),
          enhanced_record.shares = field_or_null (at_path tx [''amounts'', ''shares'']),
          enhanced_record.pricePerShare = field_or_null (at_path tx [''amounts'', ''pricePerShare'']),
          sharesOwnedFollowingTransaction =
            field_or_null (at_path tx [''postTransactionAmounts'', ''sharesOwnedFollowingTransaction''])\<rparr>"
proof -
  from get_cluster_or [OF assms(1)] obtain c0 where
    c: "dict_get tx ''coding'' (JObj []) = Inr c0"
       "\<And>g. dict_get (py_or c0 (JObj [])) g JNull = Inr (field_or_null (at_path tx [''coding'', g]))"
    by blast
  from get_cluster_or [OF assms(2)] obtain a0 where
    a: "dict_get tx ''amounts'' (JObj []) = Inr a0"
       "\<And>g. dict_get (py_or a0 (JObj [])) g JNull = Inr (field_or_null (at_path tx [''amounts'', g]))"
    by blast
  from get_cluster_or [OF assms(3)] obtain p0 where
    p: "dict_get tx ''postTransactionAmounts'' (JObj []) = Inr p0"
       "\<And>g. dict_get (py_or p0 (JObj [])) g JNull
             = Inr (field_or_null (at_path tx [''postTransactionAmounts'', g]))"
    by blast
  from shaped_obj [OF assms(1)] have s: "shaped tx [k]" for k
    by (auto split: option.splits)
  show ?thesis
    unfolding extract_tx_def
    by (simp only: c a p get_scalar [OF s] ebind_simps)
qed

lemma make_row_absent:
  assumes "shaped tx [''coding'', ''code'']" "shaped tx [''amounts'', ''shares'']"
    "shaped grp [''reportingOwner'', ''relationship'', ''officerTitle'']"
    "hashable (field_or_null (at_path tx [''coding'', ''code'']))"
  shows "make_row symbol grp tx =
     Inr \<lparr>ticker = symbol,
          transactionDate = field_or_null (at_path tx [''transactionDate'']),
          transactionCode = field_or_null (at_path tx [''coding'', ''code'']),
          transactionDesc = vocabulary_entry (field_or_null (at_path tx [''coding'', ''code''])),
          shares = field_or_null (at_path tx [''amounts'', ''shares'']),
          pricePerShare = field_or_null (at_path tx [''amounts'', ''pricePerShare'']),
          officerTitle =
            field_or_null (at_path grp [''reportingOwner'', ''relationship'', ''officerTitle''])\<rparr>"
proof -
  from get_cluster [OF assms(1)] obtain c0 where
    c: "dict_get tx ''coding'' (JObj []) = Inr c0"
       "\<And>g. dict_get c0 g JNull = Inr (field_or_null (at_path tx [''coding'', g]))"
    by blast
  from get_cluster [OF assms(2)] obtain a0 where
    a: "dict_get tx ''amounts'' (JObj []) = Inr a0"
       "\<And>g. dict_get a0 g JNull = Inr (field_or_null (at_path tx [''amounts'', g]))"
    by blast
  from get_path3 [OF assms(3)] obtain ro rel where
    r: "dict_get grp ''reportingOwner'' (JObj []) = Inr ro"
       "dict_get ro ''relationship'' (JObj []) = Inr rel"
       "\<And>g. dict_get rel g JNull
             = Inr (field_or_null (at_path grp [''reportingOwner'', ''relationship'', g]))"
    by blast
  from shaped_obj [OF assms(1)] have s: "shaped tx [k]" for k
    by (auto split: option.splits)
  show ?thesis
    unfolding make_row_def
    by (simp only: c a r get_scalar [OF s] meanings_get_hashable [OF assms(4)] ebind_simps)
qed

lemma table_transactions_none:
  assumes "no_transactions grp table_name"
  shows "table_transactions grp table_name = Inr []"
proof -
  from assms have sh: "shaped grp [table_name, ''transactions'']"
    and nt: "case at_path grp [table_name, ''transactions''] of None \<Rightarrow> True | Some v \<Rightarrow> \<not> truthy v"
    by (simp_all add: no_transactions_def)
  from get_cluster [OF sh] obtain tbl where
    t: "dict_get grp table_name (JObj []) = Inr tbl"
    by blast
  from shaped_obj [OF sh] obtain kv where grp: "grp = JObj kv" by blast
  have "\<exists>txs. dict_get tbl ''transactions'' (JArr []) = Inr txs \<and> \<not> truthy txs"
  proof (cases "map_of kv table_name")
    case None
    with t grp show ?thesis by auto
  next
    case (Some v)
    with sh grp have "shaped v [''transactions'']" by simp
    from shaped_obj [OF this] obtain tv where v: "v = JObj tv" by blast
    with Some t grp have tbl: "tbl = JObj tv" by simp
    show ?thesis
    proof (cases "map_of tv ''transactions''")
      case None
      then show ?thesis by (simp add: tbl)
    next
      case inner: (Some x)
      with nt grp Some v have "\<not> truthy x" by simp
      with inner show ?thesis by (simp add: tbl)
    qed
  qed
  then show ?thesis
    by (auto simp: table_transactions_def t py_or_def)
qed

lemma enhanced_group_none:
  assumes "meta_of grp = Inr m"
    "no_transactions grp ''nonDerivativeTable''" "no_transactions grp ''derivativeTable''"
  shows "enhanced_group grp records = Inr records"
  by (simp add: enhanced_group_def assms(1) table_transactions_none [OF assms(2)]
      table_transactions_none [OF assms(3)])

lemma basic_group_none:
  assumes "symbol_of query grp = Inr s"
    "no_transactions grp ''nonDerivativeTable''" "no_transactions grp ''derivativeTable''"
  shows "basic_group query grp rows = Inr rows"
  by (simp add: basic_group_def assms(1) table_transactions_none [OF assms(2)]
      table_transactions_none [OF assms(3)])

lemma meta_of_absent:
  assumes "shaped grp [''reportingOwner'', ''relationship'', ''officerTitle'']"
    "at_path grp [''footnotes''] = None"
  shows "meta_of grp =
     Inr \<lparr>doc_type = field_or_null (at_path grp [''documentType'']),
          footnotes_text = [],
          remarks_val = field_or_null (at_path grp [''remarks'']),
          officer_title =
            field_or_null (at_path grp [''reportingOwner'', ''relationship'', ''officerTitle'']),
          other_text =
            field_or_null (at_path grp [''reportingOwner'', ''relationship'', ''otherText''])\<rparr>"
proof -
  from get_path3 [OF assms(1)] obtain ro rel where
    r: "dict_get grp ''reportingOwner'' (JObj []) = Inr ro"
       "dict_get ro ''relationship'' (JObj []) = Inr rel"
       "\<And>g. dict_get (py_or rel (JObj [])) g JNull
             = Inr (field_or_null (at_path grp [''reportingOwner'', ''relationship'', g]))"
    by blast
  from shaped_obj [OF assms(1)] obtain kv where grp: "grp = JObj kv" by blast
  then have s: "shaped grp [k]" for k by (auto split: option.splits)
  from assms(2) grp have "map_of kv ''footnotes'' = None"
    by (auto split: option.splits)
  then have f: "footnotes_of grp = Inr []"
    by (simp add: footnotes_of_def grp py_or_def)
  show ?thesis
    unfolding meta_of_def
    by (simp only: r f get_scalar [OF s] ebind_simps)
qed

lemma symbol_of_absent:
  assumes "shaped grp [''issuer'', ''tradingSymbol'']"
  shows "symbol_of query grp =
     Inr (py_or (field_or_null (at_path grp [''issuer'', ''tradingSymbol'']))
            (JStr (last (split CHR '':'' query))))"
proof -
  from get_cluster [OF assms] obtain i0 where
    "dict_get grp ''issuer'' (JObj []) = Inr i0"
    "\<And>g. dict_get i0 g JNull = Inr (field_or_null (at_path grp [''issuer'', g]))"
    by blast
  then show ?thesis by (simp add: symbol_of_def)
qed


lemma tx_bare_shaped:
  "shaped tx_bare [''coding'', ''code'']" "shaped tx_bare [''amounts'', ''shares'']"
  "shaped tx_bare [''postTransactionAmounts'', ''sharesOwnedFollowingTransaction'']"
  "hashable (field_or_null (at_path tx_bare [''coding'', ''code'']))"
  by (simp_all add: tx_bare_def field_or_null_def)

lemma grp_bare_shaped:
  "shaped grp_bare [''reportingOwner'', ''relationship'', ''officerTitle'']"
  "at_path grp_bare [''footnotes''] = None"
  "shaped grp_bare [''issuer'', ''tradingSymbol'']"
  "no_transactions grp_bare ''nonDerivativeTable''"
  "no_transactions grp_bare ''derivativeTable''"
  by (simp_all add: grp_bare_def no_transactions_def)

lemma tx_bare_paths:
  "field_or_null (at_path tx_bare [''transactionDate'']) = JStr ''2024-01-02''"
  "field_or_null (at_path tx_bare [''securityTitle'']) = JNull"
  "field_or_null (at_path tx_bare [''coding'', ''code'']) = JNull"
  "field_or_null (at_path tx_bare [''coding'', ''equitySwapInvolved'']) = JNull"
  "field_or_null (at_path tx_bare [''amounts'', ''shares'']) = JNull"
  "field_or_null (at_path tx_bare [''amounts'', ''pricePerShare'']) = JNull"
  "field_or_null (at_path tx_bare [''postTransactionAmounts'', ''sharesOwnedFollowingTransaction''])
     = JNull"
  by (simp_all add: tx_bare_def field_or_null_def)

lemma grp_bare_paths:
  "field_or_null (at_path grp_bare [''documentType'']) = JStr ''4''"
  "field_or_null (at_path grp_bare [''remarks'']) = JNull"
  "field_or_null (at_path grp_bare [''reportingOwner'', ''relationship'', ''officerTitle'']) = JNull"
  "field_or_null (at_path grp_bare [''reportingOwner'', ''relationship'', ''otherText'']) = JNull"
  "field_or_null (at_path grp_bare [''issuer'', ''tradingSymbol'']) = JNull"
  by (simp_all add: grp_bare_def field_or_null_def)



section \<open>Prices: rounding\<close>

lemma floor_rat_numeral_div [simp]:
  "\<lfloor>numeral a / numeral b :: rat\<rfloor> = numeral a div numeral b"
  using floor_divide_of_int_eq [of "numeral a" "numeral b", where ?'a = rat] by simp

lemma ceiling_rat_numeral_div [simp]:
  "\<lceil>numeral a / numeral b :: rat\<rceil> = - (- numeral a div numeral b)"
  using floor_divide_of_int_eq [of "- numeral a" "numeral b", where ?'a = rat]
  by (simp add: ceiling_def)

lemma pow2_powi: "pow2 k = 2 powi k"
  by (simp add: pow2_def power_int_def power_one_over inverse_eq_divide)

lemma pow2_pos: "0 < pow2 k"
  by (simp add: pow2_def)

lemma pow2_mono: "j \<le> k \<Longrightarrow> pow2 j \<le> pow2 k"
  unfolding pow2_powi by (rule power_int_increasing) simp_all

lemma bit_length_bounds:
  "0 < n \<Longrightarrow> 2 ^ (bit_length n - 1) \<le> n \<and> n < 2 ^ bit_length n"
proof (induction n rule: bit_length.induct)
  case (1 n)
  show ?case
  proof (cases "n div 2 = 0")
    case True
    with "1.prems" have "n = 1" by (simp add: div_eq_0_iff)
    then show ?thesis by (simp add: bit_length.simps)
  next
    case False
    with "1.IH" "1.prems" have ih: "2 ^ (bit_length (n div 2) - 1) \<le> n div 2"
        "n div 2 < 2 ^ bit_length (n div 2)"
      by simp_all
    from False have pos: "0 < bit_length (n div 2)"
      by (subst bit_length.simps) simp
    have bl: "bit_length n = Suc (bit_length (n div 2))"
      using "1.prems" by (subst bit_length.simps) simp
    have "2 ^ bit_length (n div 2) = 2 * 2 ^ (bit_length (n div 2) - 1)"
      using pos by (cases "bit_length (n div 2)") simp_all
    also have "\<dots> \<le> 2 * (n div 2)" using ih(1) by simp
    also have "\<dots> \<le> n" by simp
    finally have lo: "2 ^ (bit_length n - 1) \<le> n" by (simp add: bl)
    have "n < 2 * (n div 2 + 1)" by arith
    also have "\<dots> \<le> 2 * 2 ^ bit_length (n div 2)" using ih(2) by simp
    finally have "n < 2 ^ bit_length n" by (simp add: bl)
    with lo show ?thesis by simp
  qed
qed

text \<open>The exponent is the floor of the binary logarithm.\<close>

lemma exponent_bounds:
  assumes "0 < a"
  shows "pow2 (exponent a) \<le> a \<and> a < pow2 (exponent a + 1)"
proof (cases "1 \<le> a")
  case True
  define n where "n = nat \<lfloor>a\<rfloor>"
  from True have n: "0 < n" "of_nat n \<le> a" "a < of_nat n + 1"
    unfolding n_def by (simp_all add: of_nat_nat) linarith+
  from bit_length_bounds [OF n(1)] have b: "2 ^ (bit_length n - 1) \<le> n" "n < 2 ^ bit_length n"
    by simp_all
  from n(1) have pos: "0 < bit_length n" by (subst bit_length.simps) simp
  have e: "exponent a = int (bit_length n) - 1"
    using True by (simp add: exponent_def n_def)
  have "pow2 (exponent a) = 2 ^ (bit_length n - 1)"
    using pos by (simp add: e pow2_def nat_diff_distrib')
  also have "\<dots> \<le> of_nat n" using b(1)
    by (metis of_nat_le_iff of_nat_numeral of_nat_power)
  also have "\<dots> \<le> a" by (rule n(2))
  finally have lo: "pow2 (exponent a) \<le> a" .
  have "n + 1 \<le> 2 ^ bit_length n" using b(2) by simp
  then have "(of_nat (n + 1) :: rat) \<le> of_nat (2 ^ bit_length n)"
    by (simp only: of_nat_le_iff)
  then have "of_nat n + 1 \<le> (2 :: rat) ^ bit_length n" by simp
  with n(3) have "a < 2 ^ bit_length n" by simp
  also have "\<dots> = pow2 (exponent a + 1)" by (simp add: e pow2_def)
  finally show ?thesis using lo by simp
next
  case False
  define b where "b = 1 / a"
  define m where "m = nat (\<lceil>b\<rceil> - 1)"
  from False assms have b1: "1 < b" by (simp add: b_def)
  then have c: "2 \<le> \<lceil>b\<rceil>" by linarith
  have m: "0 < m" "of_nat m < b" "b \<le> of_nat m + 1"
    unfolding m_def using c by (simp_all add: of_nat_nat) linarith+
  from bit_length_bounds [OF m(1)] have k: "2 ^ (bit_length m - 1) \<le> m" "m < 2 ^ bit_length m"
    by simp_all
  from m(1) have pos: "0 < bit_length m" by (subst bit_length.simps) simp
  have e: "exponent a = - int (bit_length m)"
    using False by (simp add: exponent_def m_def b_def)
  have a: "a = 1 / b" using assms by (simp add: b_def)
  have "m + 1 \<le> 2 ^ bit_length m" using k(2) by simp
  then have "(of_nat (m + 1) :: rat) \<le> of_nat (2 ^ bit_length m)"
    by (simp only: of_nat_le_iff)
  then have "of_nat m + 1 \<le> (2 :: rat) ^ bit_length m" by simp
  with m(3) have "b \<le> 2 ^ bit_length m" by simp
  then have "1 / 2 ^ bit_length m \<le> 1 / b"
    using b1 by (simp add: frac_le)
  moreover have "pow2 (exponent a) = 1 / 2 ^ bit_length m"
    using pos by (simp add: e pow2_def)
  ultimately have lo: "pow2 (exponent a) \<le> a"
    by (simp only: a)
  have "(2 :: rat) ^ (bit_length m - 1) \<le> of_nat m" using k(1)
    by (metis of_nat_le_iff of_nat_numeral of_nat_power)
  from this m(2) have "2 ^ (bit_length m - 1) < b" by (rule le_less_trans)
  then have "1 / b < 1 / 2 ^ (bit_length m - 1)"
    by (simp add: frac_less2)
  moreover have "pow2 (exponent a + 1) = 1 / 2 ^ (bit_length m - 1)"
    using pos by (cases "bit_length m") (simp_all add: e pow2_def)
  ultimately have "a < pow2 (exponent a + 1)" by (simp add: a)
  with lo show ?thesis by simp
qed

lemma exponent_unique:
  assumes "pow2 e \<le> a" "a < pow2 (e + 1)"
  shows "exponent a = e"
proof -
  from assms(1) pow2_pos [of e] have pos: "0 < a" by simp
  from exponent_bounds [OF pos] have b: "pow2 (exponent a) \<le> a" "a < pow2 (exponent a + 1)"
    by simp_all
  show ?thesis
  proof (rule ccontr)
    assume "exponent a \<noteq> e"
    then consider "exponent a + 1 \<le> e" | "e + 1 \<le> exponent a" by linarith
    then show False
    proof cases
      case 1
      from pow2_mono [OF 1] b(2) assms(1) show False by simp
    next
      case 2
      from pow2_mono [OF 2] b(1) assms(2) show False by simp
    qed
  qed
qed

text \<open>
  Rounding, step by step: the exponent \<open>e\<close> of the exact result, the multiple
  \<open>n\<close> of the unit in the last place it rounds to, and the value \<open>r\<close>.
\<close>

lemma round64_eval:
  assumes "0 < a" and "exponent a = e" and "- 1022 \<le> e"
    and "round_half_even (a / pow2 (e - 52)) = n"
    and "of_int n * pow2 (e - 52) = r" and "r < pow2 1024" and "r \<noteq> 0"
  shows "round64 a = Finite r" "round64 (- a) = Finite (- r)"
proof -
  have m: "max e (- 1022) = e" using assms(3) by simp
  have a: "\<bar>a\<bar> = a" "\<bar>- a\<bar> = a" "a \<noteq> 0" "\<not> a < 0" "- a < 0" "- a \<noteq> 0"
    using assms(1) by simp_all
  have r: "\<not> pow2 1024 \<le> r" using assms(6) by simp
  show "round64 a = Finite r"
    unfolding round64_def Let_def
    by (simp only: a assms(2) m assms(4) assms(5) r assms(7) if_False)
  show "round64 (- a) = Finite (- r)"
    unfolding round64_def Let_def
    by (simp only: a assms(2) m assms(4) assms(5) r assms(7) if_False if_True)
qed

lemma round64_overflow:
  assumes "0 < a" and "exponent a = e" and "- 1022 \<le> e"
    and "round_half_even (a / pow2 (e - 52)) = n"
    and "of_int n * pow2 (e - 52) = r" and "pow2 1024 \<le> r"
  shows "round64 a = PosInf" "round64 (- a) = NegInf"
proof -
  have m: "max e (- 1022) = e" using assms(3) by simp
  have a: "\<bar>a\<bar> = a" "\<bar>- a\<bar> = a" "a \<noteq> 0" "\<not> a < 0" "- a < 0" "- a \<noteq> 0"
    using assms(1) by simp_all
  show "round64 a = PosInf"
    unfolding round64_def Let_def
    by (simp only: a assms(2) m assms(4) assms(5) assms(6) if_False if_True)
  show "round64 (- a) = NegInf"
    unfolding round64_def Let_def
    by (simp only: a assms(2) m assms(4) assms(5) assms(6) if_False if_True)
qed

lemma round64_zero [simp]: "round64 0 = Finite 0"
  by (simp add: round64_def)

lemmas rounding_defs = exponent_def bit_length.simps round_half_even_def Let_def pow2_def

text \<open>The roundings of the examples. The float64 of 0.1 is not one tenth.\<close>

lemma round64_examples:
  "round64 10 = Finite 10"
  "round64 25 = Finite 25"
  "round64 5400 = Finite 5400"
  "round64 (1 / 2) = Finite (1 / 2)"
  "round64 (3 / 2) = Finite (3 / 2)"
  "round64 (1 / 10) = Finite (3602879701896397 / 36028797018963968)"
proof -
  show "round64 10 = Finite 10"
    by (rule round64_eval(1) [where e = 3 and n = 5629499534213120])
       (simp_all add: rounding_defs)
  show "round64 25 = Finite 25"
    by (rule round64_eval(1) [where e = 4 and n = 7036874417766400])
       (simp_all add: rounding_defs)
  show "round64 5400 = Finite 5400"
    by (rule round64_eval(1) [where e = 12 and n = 5937362789990400])
       (simp_all add: rounding_defs)
  show "round64 (1 / 2) = Finite (1 / 2)"
    by (rule round64_eval(1) [where e = "- 1" and n = 4503599627370496])
       (simp_all add: rounding_defs)
  show "round64 (3 / 2) = Finite (3 / 2)"
    by (rule round64_eval(1) [where e = 0 and n = 6755399441055744])
       (simp_all add: rounding_defs)
  show "round64 (1 / 10) = Finite (3602879701896397 / 36028797018963968)"
    by (rule round64_eval(1) [where e = "- 4" and n = 7205759403792794])
       (simp_all add: rounding_defs)
qed

text \<open>
  The arithmetic rounds as float64 does: with the float64 values of 0.3 and
  0.1, \<^verbatim>\<open>(0.3 - 0.1) / 0.1\<close> is 1.9999999999999998, the float64 below 2; and
  a difference too large for a float64 is an infinity.
\<close>

lemma float64_rounds:
  "fdiv (fsub (Finite (5404319552844595 / 18014398509481984))
              (Finite (3602879701896397 / 36028797018963968)))
        (Finite (3602879701896397 / 36028797018963968))
     = Finite (9007199254740991 / 4503599627370496)"
proof -
  have s: "round64 (5404319552844595 / 18014398509481984 - 3602879701896397 / 36028797018963968)
      = Finite (7205759403792793 / 36028797018963968)"
    by (rule round64_eval(1) [where e = "- 3" and n = 7205759403792793])
       (simp_all add: rounding_defs)
  have d: "round64 (7205759403792793 / 3602879701896397)
      = Finite (9007199254740991 / 4503599627370496)"
    by (rule round64_eval(1) [where e = 0 and n = 9007199254740991])
       (simp_all add: rounding_defs)
  show ?thesis
    by (simp only: fsub.simps s) (simp add: fdiv_def d)
qed

lemma float64_overflows:
  "fsub (Finite (2 ^ 1023)) (Finite (- (2 ^ 1023))) = PosInf"
proof -
  have e: "exponent (2 ^ 1024) = 1024"
    by (rule exponent_unique) (simp_all add: pow2_def)
  have n: "round_half_even (2 ^ 1024 / pow2 (1024 - 52)) = 4503599627370496"
    by (simp add: round_half_even_def Let_def pow2_def)
  have r: "of_int 4503599627370496 * pow2 (1024 - 52) = (2 ^ 1024 :: rat)"
    by (simp add: pow2_def)
  have "round64 (2 ^ 1024) = PosInf"
    by (rule round64_overflow(1) [OF _ e _ n r]) (simp_all add: pow2_def)
  moreover have "2 ^ 1023 - - (2 ^ 1023) = (2 ^ 1024 :: rat)" by simp
  ultimately show ?thesis by (simp only: fsub.simps)
qed

text \<open>The return over a single observation: the close against itself.\<close>

lemma fsub_self:
  "fsub c c = (case c of Finite q \<Rightarrow> Finite 0 | NegZero \<Rightarrow> Finite 0 | _ \<Rightarrow> NaN)"
  by (cases c) simp_all

lemma fdiv_fsub_self:
  "fdiv (fsub c c) c =
     (case c of
        Finite q \<Rightarrow> if 0 < q then Finite 0 else if q < 0 then NegZero else NaN
      | _ \<Rightarrow> NaN)"
  by (cases c) (simp_all add: fdiv_def signed_zero_def)

section \<open>Momentum: one row\<close>

lemma sel_extend_day:
  "day_result.return (trade_record.extend row (day_result.fields a b c)) = a"
  "day_result.realizedDate (trade_record.extend row (day_result.fields a b c)) = b"
  "day_result.daysDiff (trade_record.extend row (day_result.fields a b c)) = c"
  "trade_record.truncate (trade_record.extend row (day_result.fields a b c)) = row"
  by (simp_all add: trade_record.extend_def day_result.fields_def trade_record.truncate_def)

lemma sel_extend_hour:
  "hour_result.return (trade_record.extend row (hour_result.fields a b c)) = a"
  "hour_result.realizedDate (trade_record.extend row (hour_result.fields a b c)) = b"
  "hour_result.hoursDiff (trade_record.extend row (hour_result.fields a b c)) = c"
  "trade_record.truncate (trade_record.extend row (hour_result.fields a b c)) = row"
  by (simp_all add: trade_record.extend_def hour_result.fields_def trade_record.truncate_def)

lemma with_date_sel:
  "ticker (with_date r d) = ticker r" "transactionDate (with_date r d) = d"
  by (simp_all add: with_date_def)

lemma strip_tz_naive_utc: "strip_tz ts = Inr (naive_utc ts)"
  by (cases "tzinfo ts")
     (simp_all add: strip_tz_def naive_utc_def tz_convert_None_def tz_localize_None_def)

lemma tzinfo_naive_utc: "tzinfo (naive_utc ts) = None"
  by (cases "tzinfo ts") (simp_all add: naive_utc_def)

lemma naive_utc_naive: "tzinfo ts = None \<Longrightarrow> naive_utc ts = ts"
  by (simp add: naive_utc_def)

lemma datetime_sub_naive:
  "datetime_sub (naive_utc a) (naive_utc b)
     = Inr (wall (naive_utc a) div 1000 - wall (naive_utc b) div 1000)"
  by (simp add: datetime_sub_def tzinfo_naive_utc)

lemma date_of_midnight: "date_of (midnight d) = d"
  by (simp add: date_of_def midnight_def at_time_def)

lemma iloc_nonempty:
  "xs \<noteq> [] \<Longrightarrow> iloc_first xs = Inr (hd xs)" "xs \<noteq> [] \<Longrightarrow> iloc_last xs = Inr (last xs)"
  by (cases xs; simp add: iloc_first_def iloc_last_def)+

lemma Timedelta_days:
  "Timedelta (d * 86400000000000)
     = (if day_window_ok d then Inr (d * 86400000000000) else Inl OutOfBoundsTimedelta)"
  by (simp add: Timedelta_def day_window_ok_def)

lemma add_days_window:
  "add_days x (d * 86400000000000) = map_option (\<lambda>y. y + d) x"
  by (simp add: add_days_def)

text \<open>The day window, row by row: the four ways a row can go.\<close>

lemma analyze_day_row_overflow:
  "\<not> day_window_ok d \<Longrightarrow> analyze_day_row history d row = Inl OutOfBoundsTimedelta"
  by (simp add: analyze_day_row_def Let_def Timedelta_days)

lemma analyze_day_row_empty:
  assumes "day_window_ok d" and "day_closes history d row = []"
  shows "analyze_day_row history d row
           = Inr (trade_record.extend row (day_result.fields None None None))"
  using assms
  by (simp add: analyze_day_row_def Let_def Timedelta_days add_days_window day_closes_def)

lemma analyze_day_row_priced:
  assumes "day_window_ok d" and "transactionDate row = Some d0"
    and "day_closes history d row = closes" and "closes \<noteq> []"
  shows "analyze_day_row history d row
           = Inr (trade_record.extend row (day_result.fields
                (Some (price_return closes))
                (Some (date_of (fst (last closes))))
                (Some (date_of (fst (last closes)) - d0))))"
proof -
  from assms(4) have "1 \<le> length closes" by (cases closes) simp_all
  with assms show ?thesis
    by (simp add: analyze_day_row_def Let_def Timedelta_days add_days_window day_closes_def
        iloc_nonempty price_return_def days_between_def)
qed

lemma analyze_day_row_undated:
  assumes "day_window_ok d" and "transactionDate row = None"
    and "day_closes history d row \<noteq> []"
  shows "analyze_day_row history d row = Inl TypeError"
proof -
  from assms(3) have "1 \<le> length (day_closes history d row)"
    by (cases "day_closes history d row") simp_all
  with assms show ?thesis
    by (simp add: analyze_day_row_def Let_def Timedelta_days add_days_window day_closes_def
        iloc_nonempty days_between_def)
qed

lemma analyze_day_row_ok:
  assumes "day_row_ok history d row"
  shows "\<exists>res. analyze_day_row history d row = Inr res"
proof (cases "day_closes history d row = []")
  case True
  with assms show ?thesis by (simp add: day_row_ok_def analyze_day_row_empty)
next
  case False
  with assms obtain d0 where "transactionDate row = Some d0"
    by (auto simp: day_row_ok_def)
  with assms False show ?thesis
    by (simp add: day_row_ok_def analyze_day_row_priced)
qed

text \<open>The hour window, row by row.\<close>

lemma naive_trade_dt_eq: "naive_trade_dt x = Inr (map_option naive_utc x)"
  by (cases x) (simp_all add: naive_trade_dt_def strip_tz_naive_utc)

lemma hour_window_steps:
  assumes "hour_row_ok h row"
  shows "Timedelta (h * 3600000000000) = Inr (h * 3600000000000)"
    and "add_timedelta (map_option naive_utc (transactionDate row)) (h * 3600000000000)
           = Inr (map_option (\<lambda>ts. window_end (naive_utc ts) h) (transactionDate row))"
  using assms
  by (cases "transactionDate row";
      simp add: hour_row_ok_def Timedelta_def add_timedelta_def window_end_def)+

lemma hours_between_eq:
  "hours_between (naive_utc realized) (map_option naive_utc trade_dt)
     = Inr (case trade_dt of
              None \<Rightarrow> NaN
            | Some ts \<Rightarrow>
                fdiv (total_seconds (wall (naive_utc realized) div 1000
                                      - wall (naive_utc ts) div 1000))
                     (Finite 3600))"
  by (cases trade_dt) (simp_all add: hours_between_def datetime_sub_naive fdiv_def)

lemma analyze_hour_row_empty:
  assumes "hour_row_ok h row" and "hour_closes history h row = []"
  shows "analyze_hour_row history h row
           = Inr (trade_record.extend row (hour_result.fields None None None))"
  using assms(2)
  by (simp add: analyze_hour_row_def Let_def naive_trade_dt_eq hour_window_steps [OF assms(1)]
      hour_closes_def)

lemma analyze_hour_row_priced:
  assumes "hour_row_ok h row" and "hour_closes history h row = closes" and "closes \<noteq> []"
  shows "analyze_hour_row history h row
           = Inr (trade_record.extend row (hour_result.fields
                (Some (price_return closes))
                (Some (naive_utc (fst (last closes))))
                (Some (case transactionDate row of
                         None \<Rightarrow> NaN
                       | Some ts \<Rightarrow>
                           fdiv (total_seconds (wall (naive_utc (fst (last closes))) div 1000
                                                 - wall (naive_utc ts) div 1000))
                                (Finite 3600)))))"
  using assms(2,3)
  by (simp add: analyze_hour_row_def Let_def naive_trade_dt_eq hour_window_steps [OF assms(1)]
      hour_closes_def iloc_nonempty strip_tz_naive_utc hours_between_eq price_return_def)

lemma analyze_hour_row_ok:
  assumes "hour_row_ok h row"
  shows "\<exists>res. analyze_hour_row history h row = Inr res"
  by (cases "hour_closes history h row = []")
     (simp_all add: analyze_hour_row_empty [OF assms] analyze_hour_row_priced [OF assms])

lemma analyze_hour_row_overflow:
  "\<not> in_bounds (h * 3600000000000) \<Longrightarrow> \<exists>e. analyze_hour_row history h row = Inl e"
  by (simp add: analyze_hour_row_def naive_trade_dt_eq Timedelta_def)

section \<open>Momentum: the batch\<close>

lemma map_err_list_all:
  assumes "list_all (\<lambda>x. \<exists>y. f x = Inr y) xs"
  shows "\<exists>ys. map_err f xs = Inr ys \<and> length ys = length xs
           \<and> (\<forall>i < length xs. f (xs ! i) = Inr (ys ! i))"
  using assms
proof (induction xs)
  case Nil
  show ?case by simp
next
  case (Cons x xs)
  from Cons.prems obtain y where y: "f x = Inr y" by auto
  from Cons obtain ys where ys: "map_err f xs = Inr ys" "length ys = length xs"
    "\<forall>i < length xs. f (xs ! i) = Inr (ys ! i)" by auto
  have "map_err f (x # xs) = Inr (y # ys)" using y ys(1) by simp
  moreover have "length (y # ys) = length (x # xs)" using ys(2) by simp
  moreover have "\<forall>i < length (x # xs). f ((x # xs) ! i) = Inr ((y # ys) ! i)"
  proof (intro allI impI)
    fix i assume "i < length (x # xs)"
    then show "f ((x # xs) ! i) = Inr ((y # ys) ! i)"
      using y ys(3) by (cases i) simp_all
  qed
  ultimately show ?case by blast
qed

text \<open>A row that raises ends the loop with its exception.\<close>

lemma map_err_raises:
  assumes "i < length xs" and "f (xs ! i) = Inl e"
    and "\<forall>j < i. \<exists>y. f (xs ! j) = Inr y"
  shows "map_err f xs = Inl e"
  using assms
proof (induction xs arbitrary: i)
  case Nil
  then show ?case by simp
next
  case (Cons x xs)
  show ?case
  proof (cases i)
    case 0
    with Cons.prems show ?thesis by simp
  next
    case (Suc k)
    from Cons.prems(3) Suc obtain y where y: "f x = Inr y" by fastforce
    have "map_err f xs = Inl e"
    proof (rule Cons.IH [of k])
      show "k < length xs" using Cons.prems(1) Suc by simp
      show "f (xs ! k) = Inl e" using Cons.prems(2) Suc by simp
      show "\<forall>j < k. \<exists>y. f (xs ! j) = Inr y"
      proof (intro allI impI)
        fix j assume "j < k"
        then have "Suc j < i" using Suc by simp
        with Cons.prems(3) have "\<exists>y. f ((x # xs) ! Suc j) = Inr y" by blast
        then show "\<exists>y. f (xs ! j) = Inr y" by simp
      qed
    qed
    with y show ?thesis by simp
  qed
qed

lemma assign_column_rows:
  assumes "assign_column df cells = Inr rows"
  shows "length cells = length df" and "rows = map2 with_date df cells"
    and "length rows = length df"
    and "\<forall>i < length df. rows ! i = with_date (df ! i) (cells ! i)"
  using assms by (auto simp: assign_column_def split: if_splits)

lemma day_frame_rows:
  assumes "day_frame to_datetime df = Inr rows"
  shows "length rows = length df"
    and "\<forall>i < length df. rows ! i = with_date (df ! i) (transactionDate (rows ! i))"
proof -
  from assms obtain tz cells where
    a: "assign_column df (map (map_option (\<lambda>w. w div 86400000000000)) cells) = Inr rows"
    by (auto simp: day_frame_def split: parsed_column.splits)
  from assign_column_rows(3) [OF a] show "length rows = length df" .
  from assign_column_rows(4) [OF a]
  show "\<forall>i < length df. rows ! i = with_date (df ! i) (transactionDate (rows ! i))"
    by (simp add: with_date_sel)
qed

lemma hour_frame_rows:
  assumes "hour_frame to_datetime df = Inr rows"
  shows "length rows = length df"
    and "\<forall>i < length df. rows ! i = with_date (df ! i) (transactionDate (rows ! i))"
proof -
  from assms obtain tz cells where
    a: "assign_column df (map (map_option (\<lambda>w. \<lparr>wall = w, tzinfo = tz\<rparr>)) cells) = Inr rows"
    by (auto simp: hour_frame_def split: parsed_column.splits)
  from assign_column_rows(3) [OF a] show "length rows = length df" .
  from assign_column_rows(4) [OF a]
  show "\<forall>i < length df. rows ! i = with_date (df ! i) (transactionDate (rows ! i))"
    by (simp add: with_date_sel)
qed

text \<open>The loop of each analyzer is the row function over the parsed rows.\<close>

lemma for_each_rows:
  "for_each (\<lambda>row results. ebind (f row) (\<lambda>record. Inr (results @ [record]))) rows []
     = map_err f rows"
  by (cases "map_err f rows") (simp_all add: for_each_append)

lemma analyze_days_rows:
  assumes "day_frame to_datetime df = Inr rows"
  shows "analyze_trade_momentum_days to_datetime history df d
           = map_err (analyze_day_row history d) rows"
proof (cases "df = []")
  case True
  with day_frame_rows(1) [OF assms] have "rows = []" by simp
  with True show ?thesis by (simp add: analyze_trade_momentum_days_def)
next
  case False
  then show ?thesis
    by (simp add: analyze_trade_momentum_days_def assms for_each_rows)
qed

lemma analyze_hours_rows:
  assumes "hour_frame to_datetime df = Inr rows"
  shows "analyze_trade_momentum_hours to_datetime history df h
           = map_err (analyze_hour_row history h) rows"
proof (cases "df = []")
  case True
  with hour_frame_rows(1) [OF assms] have "rows = []" by simp
  with True show ?thesis by (simp add: analyze_trade_momentum_hours_def)
next
  case False
  then show ?thesis
    by (simp add: analyze_trade_momentum_hours_def assms for_each_rows)
qed

lemma analyze_days_results:
  assumes "day_frame to_datetime df = Inr rows"
    and "list_all (day_row_ok history d) rows"
  shows "\<exists>out. analyze_trade_momentum_days to_datetime history df d = Inr out
           \<and> length out = length df
           \<and> (\<forall>i < length df. analyze_day_row history d (rows ! i) = Inr (out ! i))"
proof -
  let ?f = "analyze_day_row history d"
  from assms(2) have "list_all (\<lambda>row. \<exists>res. ?f row = Inr res) rows"
    by (simp add: list_all_iff analyze_day_row_ok)
  from map_err_list_all [OF this]
  obtain ys where "map_err ?f rows = Inr ys" "length ys = length rows"
    "\<forall>i < length rows. ?f (rows ! i) = Inr (ys ! i)" by blast
  with analyze_days_rows [OF assms(1)] day_frame_rows(1) [OF assms(1)]
  show ?thesis by auto
qed

lemma analyze_hours_results:
  assumes "hour_frame to_datetime df = Inr rows"
    and "list_all (hour_row_ok h) rows"
  shows "\<exists>out. analyze_trade_momentum_hours to_datetime history df h = Inr out
           \<and> length out = length df
           \<and> (\<forall>i < length df. analyze_hour_row history h (rows ! i) = Inr (out ! i))"
proof -
  let ?f = "analyze_hour_row history h"
  from assms(2) have "list_all (\<lambda>row. \<exists>res. ?f row = Inr res) rows"
    by (simp add: list_all_iff analyze_hour_row_ok)
  from map_err_list_all [OF this]
  obtain ys where "map_err ?f rows = Inr ys" "length ys = length rows"
    "\<forall>i < length rows. ?f (rows ! i) = Inr (ys ! i)" by blast
  with analyze_hours_rows [OF assms(1)] hour_frame_rows(1) [OF assms(1)]
  show ?thesis by auto
qed

section \<open>Momentum: the examples\<close>

lemmas calendar_defs = ymd_def days_before_year_def days_before_month_def is_leap_def

lemma ymd_examples:
  "ymd 2024 1 2 = 19724" "ymd 2024 1 3 = 19725" "ymd 2024 1 5 = 19727" "ymd 2024 1 15 = 19737"
  by (simp_all add: calendar_defs)

lemmas trade_defs =
  abc_trade_def xyz_trade_def undated_trade_def abc_aware_trade_def xyz_aware_trade_def
  late_aware_trade_def

lemmas row_defs =
  abc_row_def xyz_row_def undated_row_def abc_aware_row_def xyz_aware_row_def
  late_aware_row_def late_day_row_def ten_eastern_def late_eastern_def

lemmas frame_defs =
  day_frame_def hour_frame_def example_to_datetime_def example_cell_def assign_column_def
  with_date_def at_time_def Let_def

lemma example_day_frames:
  "day_frame example_to_datetime [abc_trade, xyz_trade] = Inr [abc_row, xyz_row]"
  "day_frame example_to_datetime [abc_trade] = Inr [abc_row]"
  "day_frame example_to_datetime [undated_trade] = Inr [undated_row]"
  "day_frame example_to_datetime [xyz_trade, undated_trade] = Inr [xyz_row, undated_row]"
  "day_frame example_to_datetime [late_aware_trade] = Inr [late_day_row]"
  by (simp_all add: frame_defs trade_defs row_defs ymd_examples)

lemma example_hour_frames:
  "hour_frame example_to_datetime [abc_aware_trade, xyz_aware_trade]
     = Inr [abc_aware_row, xyz_aware_row]"
  "hour_frame example_to_datetime [abc_aware_trade] = Inr [abc_aware_row]"
  "hour_frame example_to_datetime [late_aware_trade] = Inr [late_aware_row]"
  "hour_frame example_to_datetime [abc_aware_trade, xyz_trade] = Inl ValueError"
  by (simp_all add: frame_defs trade_defs row_defs ymd_examples)

lemma example_row_dates:
  "transactionDate abc_row = Some (ymd 2024 1 2)"
  "transactionDate xyz_row = Some (ymd 2024 1 3)"
  "transactionDate undated_row = None"
  "transactionDate late_day_row = Some (ymd 2024 1 2)"
  "transactionDate abc_aware_row = Some ten_eastern"
  "transactionDate late_aware_row = Some late_eastern"
  by (simp_all add: abc_row_def xyz_row_def undated_row_def late_day_row_def
      abc_aware_row_def late_aware_row_def with_date_sel)

lemma example_day_closes:
  "day_closes stub_history 30 abc_row
     = [(midnight (ymd 2024 1 2), Finite 100), (midnight (ymd 2024 1 15), Finite 110)]"
  "day_closes stub_history 30 xyz_row = []"
  "day_closes stub_history 30 undated_row
     = [(midnight (ymd 2024 1 2), Finite 100), (midnight (ymd 2024 1 15), Finite 110)]"
  "day_closes one_close_history 30 abc_row = [(midnight (ymd 2024 1 5), Finite 42)]"
  "day_closes one_close_history 30 undated_row = [(midnight (ymd 2024 1 5), Finite 42)]"
  "day_closes zero_close_history 30 abc_row = [(midnight (ymd 2024 1 5), Finite 0)]"
  by (simp_all add: day_closes_def stub_history_def one_close_history_def
      zero_close_history_def fetch_closes_def row_defs trade_defs with_date_def)

lemma example_hour_closes:
  "hour_closes stub_hour_history 48 abc_aware_row
     = [(ten_eastern, Finite 50),
        (\<lparr>wall = at_time (ymd 2024 1 2) 11 30, tzinfo = Some (- 18000)\<rparr>, Finite 75)]"
  "hour_closes stub_hour_history 48 xyz_aware_row = []"
  by (simp_all add: hour_closes_def stub_hour_history_def fetch_closes_def row_defs trade_defs
      with_date_def)

lemma example_day_rows_ok:
  "list_all (day_row_ok stub_history 30) [abc_row, xyz_row]"
  "list_all (day_row_ok one_close_history 30) [abc_row]"
  "list_all (day_row_ok zero_close_history 30) [abc_row]"
  "list_all (day_row_ok start_history 30) [late_day_row]"
  by (simp_all add: day_row_ok_def day_window_ok_def in_bounds_def row_defs with_date_def)

lemma example_hour_rows_ok:
  "list_all (hour_row_ok 48) [abc_aware_row, xyz_aware_row]"
  "list_all (hour_row_ok 48) [abc_aware_row]"
  "list_all (hour_row_ok 48) [late_aware_row]"
  by (simp_all add: hour_row_ok_def in_bounds_def row_defs with_date_def naive_utc_def
      at_time_def ymd_examples)

section \<open>Momentum: the claims\<close>







text \<open>The rows with a date, in terms of the timestamp or date the window starts at.\<close>

lemma naive_utc_explicit:
  "naive_utc ts
     = \<lparr>wall = (case tzinfo ts of None \<Rightarrow> wall ts | Some off \<Rightarrow> wall ts - off * 1000000000),
        tzinfo = None\<rparr>"
  by (cases ts; cases "tzinfo ts"; simp add: naive_utc_def)

lemma analyze_hour_row_dated:
  assumes "hour_row_ok h row" and "transactionDate row = Some ts" and "trade_dt = naive_utc ts"
  shows "analyze_hour_row history h row =
     Inr (trade_record.extend row
       (let closes = fetch_closes (history (ticker row) (Some trade_dt)
                        (Some (trade_dt\<lparr>wall := wall trade_dt + h * 3600000000000\<rparr>)))
        in if closes = [] then hour_result.fields None None None
           else hour_result.fields
                  (Some (fdiv (fsub (snd (last closes)) (snd (hd closes))) (snd (hd closes))))
                  (Some (naive_utc (fst (last closes))))
                  (Some (fdiv (total_seconds (wall (naive_utc (fst (last closes))) div 1000
                                               - wall trade_dt div 1000))
                              (Finite 3600)))))"
proof -
  define closes where "closes = hour_closes history h row"
  have c: "fetch_closes (history (ticker row) (Some trade_dt)
              (Some (trade_dt\<lparr>wall := wall trade_dt + h * 3600000000000\<rparr>))) = closes"
    by (simp add: closes_def hour_closes_def assms(2,3) window_end_def)
  show ?thesis
  proof (cases "closes = []")
    case True
    then have e: "hour_closes history h row = []" by (simp add: closes_def)
    show ?thesis
      unfolding Let_def c
      by (simp add: analyze_hour_row_empty [OF assms(1) e] True)
  next
    case False
    have p: "hour_closes history h row = closes" by (simp add: closes_def)
    show ?thesis
      unfolding Let_def c
      by (simp add: analyze_hour_row_priced [OF assms(1) p False] False assms(2,3)
          price_return_def)
  qed
qed

lemma analyze_day_row_dated:
  assumes "day_window_ok d" and "transactionDate row = Some d0"
  shows "analyze_day_row history d row =
     Inr (trade_record.extend row
       (let closes = fetch_closes (history (ticker row) (Some d0) (Some (d0 + d)))
        in if closes = [] then day_result.fields None None None
           else day_result.fields
                  (Some (fdiv (fsub (snd (last closes)) (snd (hd closes))) (snd (hd closes))))
                  (Some (date_of (fst (last closes))))
                  (Some (date_of (fst (last closes)) - d0))))"
proof -
  define closes where "closes = day_closes history d row"
  have c: "fetch_closes (history (ticker row) (Some d0) (Some (d0 + d))) = closes"
    by (simp add: closes_def day_closes_def assms(2))
  show ?thesis
  proof (cases "closes = []")
    case True
    then have e: "day_closes history d row = []" by (simp add: closes_def)
    show ?thesis
      unfolding Let_def c
      by (simp add: analyze_day_row_empty [OF assms(1) e] True)
  next
    case False
    have p: "day_closes history d row = closes" by (simp add: closes_def)
    show ?thesis
      unfolding Let_def c
      by (simp add: analyze_day_row_priced [OF assms(1,2) p False] False price_return_def)
  qed
qed

lemma frames_of_column:
  assumes "to_datetime (map transactionDate df) = DatetimeColumn tz cells"
    and "length cells = length df"
  shows "hour_frame to_datetime df
           = Inr (map2 with_date df (map (map_option (\<lambda>w. \<lparr>wall = w, tzinfo = tz\<rparr>)) cells))"
    and "day_frame to_datetime df
           = Inr (map2 with_date df (map (map_option (\<lambda>w. w div 86400000000000)) cells))"
  using assms by (simp_all add: hour_frame_def day_frame_def assign_column_def)

text \<open>
  C9. What each analyzer makes of the transaction timestamps that
  \<^verbatim>\<open>pd.to_datetime\<close> returns, a column of wall-clock readings with one UTC
  offset or none. The hour window keeps them with their offset in the frame;
  for each row it converts an aware timestamp to UTC and then drops the offset
  (the naive reading is the wall-clock reading minus the offset), leaves a
  naive one as it is, and uses this naive timestamp as the start of the price
  window, for the end of the window, and in the subtraction from the naive UTC
  reading of the last observation. The day window keeps the calendar date of the
  wall-clock reading, without conversion, and uses this date as the start of
  the window, for its end, and in the subtraction from the date of the last
  observation. Each analyzer is its row function over the rows of the frame.
\<close>

theorem transaction_timestamp_made_naive:
  "(hour_row_ok h row \<and> transactionDate row = Some ts \<longrightarrow>
      analyze_hour_row history h row =
        Inr (trade_record.extend row
          (let trade_dt =
                 \<lparr>wall = (case tzinfo ts of
                             None \<Rightarrow> wall ts
                           | Some off \<Rightarrow> wall ts - off * 1000000000),
                    tzinfo = None\<rparr>;
               closes = fetch_closes (history (ticker row) (Some trade_dt)
                          (Some (trade_dt\<lparr>wall := wall trade_dt + h * 3600000000000\<rparr>)))
           in if closes = [] then hour_result.fields None None None
              else hour_result.fields
                     (Some (fdiv (fsub (snd (last closes)) (snd (hd closes))) (snd (hd closes))))
                     (Some (naive_utc (fst (last closes))))
                     (Some (fdiv (total_seconds (wall (naive_utc (fst (last closes))) div 1000
                                                  - wall trade_dt div 1000))
                                 (Finite 3600))))))
 \<and> (day_window_ok d \<and> transactionDate rowd = Some d0 \<longrightarrow>
      analyze_day_row historyd d rowd =
        Inr (trade_record.extend rowd
          (let closes = fetch_closes (historyd (ticker rowd) (Some d0) (Some (d0 + d)))
           in if closes = [] then day_result.fields None None None
              else day_result.fields
                     (Some (fdiv (fsub (snd (last closes)) (snd (hd closes))) (snd (hd closes))))
                     (Some (date_of (fst (last closes))))
                     (Some (date_of (fst (last closes)) - d0)))))
 \<and> (to_datetime (map transactionDate df) = DatetimeColumn tz cells
      \<and> length cells = length df \<longrightarrow>
      hour_frame to_datetime df
        = Inr (map2 with_date df (map (map_option (\<lambda>w. \<lparr>wall = w, tzinfo = tz\<rparr>)) cells))
      \<and> day_frame to_datetime df
        = Inr (map2 with_date df (map (map_option (\<lambda>w. w div 86400000000000)) cells)))
 \<and> (hour_frame to_datetime df = Inr rows \<longrightarrow>
      analyze_trade_momentum_hours to_datetime history df h
        = map_err (analyze_hour_row history h) rows)
 \<and> (day_frame to_datetime df = Inr rowsd \<longrightarrow>
      analyze_trade_momentum_days to_datetime historyd df d
        = map_err (analyze_day_row historyd d) rowsd)"
proof (intro conjI impI)
  assume "hour_row_ok h row \<and> transactionDate row = Some ts"
  then show "analyze_hour_row history h row =
        Inr (trade_record.extend row
          (let trade_dt =
                 \<lparr>wall = (case tzinfo ts of
                             None \<Rightarrow> wall ts
                           | Some off \<Rightarrow> wall ts - off * 1000000000),
                    tzinfo = None\<rparr>;
               closes = fetch_closes (history (ticker row) (Some trade_dt)
                          (Some (trade_dt\<lparr>wall := wall trade_dt + h * 3600000000000\<rparr>)))
           in if closes = [] then hour_result.fields None None None
              else hour_result.fields
                     (Some (fdiv (fsub (snd (last closes)) (snd (hd closes))) (snd (hd closes))))
                     (Some (naive_utc (fst (last closes))))
                     (Some (fdiv (total_seconds (wall (naive_utc (fst (last closes))) div 1000
                                                  - wall trade_dt div 1000))
                                 (Finite 3600)))))"
    unfolding Let_def [of "\<lparr>wall = _, tzinfo = None\<rparr>"]
    by (intro analyze_hour_row_dated [of h row ts]) (simp_all add: naive_utc_explicit)
next
  assume "day_window_ok d \<and> transactionDate rowd = Some d0"
  then show "analyze_day_row historyd d rowd =
        Inr (trade_record.extend rowd
          (let closes = fetch_closes (historyd (ticker rowd) (Some d0) (Some (d0 + d)))
           in if closes = [] then day_result.fields None None None
              else day_result.fields
                     (Some (fdiv (fsub (snd (last closes)) (snd (hd closes))) (snd (hd closes))))
                     (Some (date_of (fst (last closes))))
                     (Some (date_of (fst (last closes)) - d0))))"
    by (simp only: analyze_day_row_dated)
next
  assume a: "to_datetime (map transactionDate df) = DatetimeColumn tz cells
      \<and> length cells = length df"
  then show "hour_frame to_datetime df
        = Inr (map2 with_date df (map (map_option (\<lambda>w. \<lparr>wall = w, tzinfo = tz\<rparr>)) cells))"
    by (simp add: frames_of_column(1))
  from a show "day_frame to_datetime df
        = Inr (map2 with_date df (map (map_option (\<lambda>w. w div 86400000000000)) cells))"
    by (simp add: frames_of_column(2))
next
  assume "hour_frame to_datetime df = Inr rows"
  then show "analyze_trade_momentum_hours to_datetime history df h
        = map_err (analyze_hour_row history h) rows"
    by (rule analyze_hours_rows)
next
  assume "day_frame to_datetime df = Inr rowsd"
  then show "analyze_trade_momentum_days to_datetime historyd df d
        = map_err (analyze_day_row historyd d) rowsd"
    by (rule analyze_days_rows)
qed

text \<open>
  A transaction at 22:00 on 2024-01-02, five hours behind UTC, and a price
  history with one observation at the start it is asked for. The hour window
  starts at 03:00 on 2024-01-03, the UTC reading; the day window starts on
  2024-01-02, the date of the wall-clock reading.
\<close>

lemma late_hour_fields:
  "(let trade_dt =
          \<lparr>wall = (case tzinfo late_eastern of
                      None \<Rightarrow> wall late_eastern
                    | Some off \<Rightarrow> wall late_eastern - off * 1000000000),
             tzinfo = None\<rparr>;
        closes = fetch_closes (start_hour_history (ticker late_aware_row) (Some trade_dt)
                   (Some (trade_dt\<lparr>wall := wall trade_dt + 48 * 3600000000000\<rparr>)))
    in if closes = [] then hour_result.fields None None None
       else hour_result.fields
              (Some (fdiv (fsub (snd (last closes)) (snd (hd closes))) (snd (hd closes))))
              (Some (naive_utc (fst (last closes))))
              (Some (fdiv (total_seconds (wall (naive_utc (fst (last closes))) div 1000
                                           - wall trade_dt div 1000))
                          (Finite 3600))))
   = hour_result.fields (Some (Finite 0))
       (Some \<lparr>wall = at_time (ymd 2024 1 3) 3 0, tzinfo = None\<rparr>) (Some (Finite 0))"
  by (simp add: late_eastern_def start_hour_history_def fetch_closes_def at_time_def
      ymd_examples naive_utc_def fdiv_def signed_zero_def total_seconds_def Let_def)

lemma late_day_fields:
  "(let closes = fetch_closes (start_history (ticker late_day_row) (Some (ymd 2024 1 2))
                   (Some (ymd 2024 1 2 + 30)))
    in if closes = [] then day_result.fields None None None
       else day_result.fields
              (Some (fdiv (fsub (snd (last closes)) (snd (hd closes))) (snd (hd closes))))
              (Some (date_of (fst (last closes))))
              (Some (date_of (fst (last closes)) - ymd 2024 1 2)))
   = day_result.fields (Some (Finite 0)) (Some (ymd 2024 1 2)) (Some 0)"
  by (simp add: start_history_def fetch_closes_def date_of_midnight fdiv_def signed_zero_def
      Let_def)

lemma late_column:
  "example_to_datetime (map transactionDate [late_aware_trade])
     = DatetimeColumn (Some (- 18000)) [Some (at_time (ymd 2024 1 2) 22 0)]"
  by (simp add: example_to_datetime_def example_cell_def late_aware_trade_def abc_trade_def
      Let_def)

theorem transaction_timestamp_made_naive_witness:
  "hour_row_ok 48 late_aware_row \<and> transactionDate late_aware_row = Some late_eastern
   \<and> analyze_hour_row start_hour_history 48 late_aware_row
       = Inr (trade_record.extend late_aware_row
           (hour_result.fields (Some (Finite 0))
              (Some \<lparr>wall = at_time (ymd 2024 1 3) 3 0, tzinfo = None\<rparr>) (Some (Finite 0))))
   \<and> day_window_ok 30 \<and> transactionDate late_day_row = Some (ymd 2024 1 2)
   \<and> analyze_day_row start_history 30 late_day_row
       = Inr (trade_record.extend late_day_row
           (day_result.fields (Some (Finite 0)) (Some (ymd 2024 1 2)) (Some 0)))
   \<and> example_to_datetime (map transactionDate [late_aware_trade])
       = DatetimeColumn (Some (- 18000)) [Some (at_time (ymd 2024 1 2) 22 0)]
   \<and> hour_frame example_to_datetime [late_aware_trade] = Inr [late_aware_row]
   \<and> day_frame example_to_datetime [late_aware_trade] = Inr [late_day_row]
   \<and> analyze_trade_momentum_hours example_to_datetime start_hour_history [late_aware_trade] 48
       = Inr [trade_record.extend late_aware_row
           (hour_result.fields (Some (Finite 0))
              (Some \<lparr>wall = at_time (ymd 2024 1 3) 3 0, tzinfo = None\<rparr>) (Some (Finite 0)))]
   \<and> analyze_trade_momentum_days example_to_datetime start_history [late_aware_trade] 30
       = Inr [trade_record.extend late_day_row
           (day_result.fields (Some (Finite 0)) (Some (ymd 2024 1 2)) (Some 0))]"
proof -
  note t = transaction_timestamp_made_naive
      [where h = 48 and row = late_aware_row and ts = late_eastern
         and history = start_hour_history and d = 30 and rowd = late_day_row
         and ?d0.0 = "ymd 2024 1 2" and historyd = start_history
         and to_datetime = example_to_datetime and df = "[late_aware_trade]"
         and tz = "Some (- 18000)" and cells = "[Some (at_time (ymd 2024 1 2) 22 0)]"
         and rows = "[late_aware_row]" and rowsd = "[late_day_row]"]
  have ok: "hour_row_ok 48 late_aware_row" using example_hour_rows_ok(3) by simp
  have w: "day_window_ok 30" by (simp add: day_window_ok_def in_bounds_def)
  from t [THEN conjunct1] ok example_row_dates(6)
  have r1: "analyze_hour_row start_hour_history 48 late_aware_row
       = Inr (trade_record.extend late_aware_row
           (hour_result.fields (Some (Finite 0))
              (Some \<lparr>wall = at_time (ymd 2024 1 3) 3 0, tzinfo = None\<rparr>) (Some (Finite 0))))"
    unfolding late_hour_fields by blast
  from t [THEN conjunct2, THEN conjunct1] w example_row_dates(4)
  have r2: "analyze_day_row start_history 30 late_day_row
       = Inr (trade_record.extend late_day_row
           (day_result.fields (Some (Finite 0)) (Some (ymd 2024 1 2)) (Some 0)))"
    unfolding late_day_fields by blast
  from t [THEN conjunct2, THEN conjunct2, THEN conjunct1] late_column
  have f: "hour_frame example_to_datetime [late_aware_trade] = Inr [late_aware_row]"
      "day_frame example_to_datetime [late_aware_trade] = Inr [late_day_row]"
    by (simp_all add: row_defs trade_defs with_date_def at_time_def ymd_examples)
  from t [THEN conjunct2, THEN conjunct2, THEN conjunct2, THEN conjunct1] f(1) r1
  have b1: "analyze_trade_momentum_hours example_to_datetime start_hour_history
       [late_aware_trade] 48
       = Inr [trade_record.extend late_aware_row
           (hour_result.fields (Some (Finite 0))
              (Some \<lparr>wall = at_time (ymd 2024 1 3) 3 0, tzinfo = None\<rparr>) (Some (Finite 0)))]"
    by simp
  from t [THEN conjunct2, THEN conjunct2, THEN conjunct2, THEN conjunct2] f(2) r2
  have b2: "analyze_trade_momentum_days example_to_datetime start_history [late_aware_trade] 30
       = Inr [trade_record.extend late_day_row
           (day_result.fields (Some (Finite 0)) (Some (ymd 2024 1 2)) (Some 0))]"
    by simp
  from ok example_row_dates(6) r1 w example_row_dates(4) r2 late_column f b1 b2
  show ?thesis by blast
qed

text \<open>
  The offset of a transaction timestamp is not simply discarded in the hour
  window: for a transaction at 10:00, five hours behind UTC, the price window
  starts at 15:00, the UTC reading, where dropping the offset would give
  10:00. The price history here has one observation, at the start it is asked
  for.
\<close>

theorem hour_window_converts_to_utc:
  "hour_frame example_to_datetime [abc_aware_trade] = Inr [abc_aware_row]
   \<and> transactionDate abc_aware_row = Some ten_eastern
   \<and> tz_localize_None ten_eastern = \<lparr>wall = at_time (ymd 2024 1 2) 10 0, tzinfo = None\<rparr>
   \<and> analyze_trade_momentum_hours example_to_datetime start_hour_history [abc_aware_trade] 48
       = Inr [trade_record.extend abc_aware_row
           (hour_result.fields (Some (Finite 0))
              (Some \<lparr>wall = at_time (ymd 2024 1 2) 15 0, tzinfo = None\<rparr>) (Some (Finite 0)))]"
proof -
  have ok: "hour_row_ok 48 abc_aware_row" using example_hour_rows_ok(2) by simp
  have n: "naive_utc ten_eastern = \<lparr>wall = at_time (ymd 2024 1 2) 15 0, tzinfo = None\<rparr>"
    by (simp add: naive_utc_def ten_eastern_def at_time_def)
  have "analyze_hour_row start_hour_history 48 abc_aware_row
       = Inr (trade_record.extend abc_aware_row
           (hour_result.fields (Some (Finite 0))
              (Some \<lparr>wall = at_time (ymd 2024 1 2) 15 0, tzinfo = None\<rparr>) (Some (Finite 0))))"
    unfolding analyze_hour_row_dated [OF ok example_row_dates(5) n [symmetric]]
    by (simp add: start_hour_history_def fetch_closes_def naive_utc_def fdiv_def
        signed_zero_def total_seconds_def Let_def)
  then have "analyze_trade_momentum_hours example_to_datetime start_hour_history
       [abc_aware_trade] 48
       = Inr [trade_record.extend abc_aware_row
           (hour_result.fields (Some (Finite 0))
              (Some \<lparr>wall = at_time (ymd 2024 1 2) 15 0, tzinfo = None\<rparr>) (Some (Finite 0)))]"
    by (simp add: analyze_hours_rows [OF example_hour_frames(2)])
  moreover have "tz_localize_None ten_eastern
      = \<lparr>wall = at_time (ymd 2024 1 2) 10 0, tzinfo = None\<rparr>"
    by (simp add: tz_localize_None_def ten_eastern_def)
  ultimately show ?thesis
    using example_hour_frames(2) example_row_dates(5) by blast
qed

text \<open>
  C10. In a run of the day window that is not aborted, a row with a date whose
  series of closes is a single observation takes the branch of the available
  data, whatever the close is. The return is the close against itself: zero
  for a positive close, the negative zero for a negative one, and NaN for a
  close that is zero, infinite or NaN. The realized date is the date of the
  observation, and the elapsed days are that date minus the transaction date.
\<close>

theorem single_observation_return:
  assumes "day_frame to_datetime df = Inr rows"
    and "list_all (day_row_ok history days_after) rows"
    and "i < length df"
    and "transactionDate (rows ! i) = Some d0"
    and "day_closes history days_after (rows ! i) = [(t, c)]"
  shows "\<exists>out. analyze_trade_momentum_days to_datetime history df days_after = Inr out
           \<and> day_result.return (out ! i) = Some (fdiv (fsub c c) c)
           \<and> fdiv (fsub c c) c =
               (case c of
                  Finite q \<Rightarrow> if 0 < q then Finite 0 else if q < 0 then NegZero else NaN
                | NegZero \<Rightarrow> NaN | PosInf \<Rightarrow> NaN | NegInf \<Rightarrow> NaN | NaN \<Rightarrow> NaN)
           \<and> day_result.realizedDate (out ! i) = Some (date_of t)
           \<and> daysDiff (out ! i) = Some (date_of t - d0)"
proof -
  from analyze_days_results [OF assms(1,2)] obtain out where
    out: "analyze_trade_momentum_days to_datetime history df days_after = Inr out"
      "\<forall>i < length df. analyze_day_row history days_after (rows ! i) = Inr (out ! i)"
    by blast
  from assms(3) day_frame_rows(1) [OF assms(1)] have "rows ! i \<in> set rows" by simp
  with assms(2) have w: "day_window_ok days_after"
    by (auto simp: list_all_iff day_row_ok_def)
  from analyze_day_row_priced [OF w assms(4,5)] out(2) assms(3)
  have "out ! i = trade_record.extend (rows ! i) (day_result.fields
          (Some (price_return [(t, c)])) (Some (date_of t)) (Some (date_of t - d0)))"
    by simp
  then have "day_result.return (out ! i) = Some (fdiv (fsub c c) c)
      \<and> day_result.realizedDate (out ! i) = Some (date_of t)
      \<and> daysDiff (out ! i) = Some (date_of t - d0)"
    by (simp add: sel_extend_day price_return_def)
  moreover have "fdiv (fsub c c) c =
      (case c of
         Finite q \<Rightarrow> if 0 < q then Finite 0 else if q < 0 then NegZero else NaN
       | NegZero \<Rightarrow> NaN | PosInf \<Rightarrow> NaN | NegInf \<Rightarrow> NaN | NaN \<Rightarrow> NaN)"
    by (cases c) (simp_all add: fdiv_def signed_zero_def)
  ultimately show ?thesis using out(1) by blast
qed

text \<open>A single close of 42.0 on 2024-01-05, for a transaction on 2024-01-02.\<close>

theorem single_observation_return_witness:
  "day_frame example_to_datetime [abc_trade] = Inr [abc_row]
   \<and> list_all (day_row_ok one_close_history 30) [abc_row]
   \<and> transactionDate ([abc_row] ! 0) = Some (ymd 2024 1 2)
   \<and> day_closes one_close_history 30 ([abc_row] ! 0) = [(midnight (ymd 2024 1 5), Finite 42)]
   \<and> (\<exists>out. analyze_trade_momentum_days example_to_datetime one_close_history [abc_trade] 30
               = Inr out
         \<and> day_result.return (out ! 0) = Some (Finite 0)
         \<and> day_result.realizedDate (out ! 0) = Some (ymd 2024 1 5)
         \<and> daysDiff (out ! 0) = Some 3)"
proof -
  have d: "transactionDate ([abc_row] ! 0) = Some (ymd 2024 1 2)"
    by (simp add: example_row_dates)
  have c: "day_closes one_close_history 30 ([abc_row] ! 0)
      = [(midnight (ymd 2024 1 5), Finite 42)]"
    by (simp add: example_day_closes)
  from single_observation_return
      [OF example_day_frames(2) example_day_rows_ok(2) _ d c]
  obtain out where out:
    "analyze_trade_momentum_days example_to_datetime one_close_history [abc_trade] 30 = Inr out"
    "day_result.return (out ! 0) = Some (fdiv (fsub (Finite 42) (Finite 42)) (Finite 42))"
    "fdiv (fsub (Finite 42) (Finite 42)) (Finite 42) =
       (case Finite 42 of
          Finite q \<Rightarrow> if 0 < q then Finite 0 else if q < 0 then NegZero else NaN
        | NegZero \<Rightarrow> NaN | PosInf \<Rightarrow> NaN | NegInf \<Rightarrow> NaN | NaN \<Rightarrow> NaN)"
    "day_result.realizedDate (out ! 0) = Some (date_of (midnight (ymd 2024 1 5)))"
    "daysDiff (out ! 0) = Some (date_of (midnight (ymd 2024 1 5)) - ymd 2024 1 2)"
    by auto
  from out(2,3) have "day_result.return (out ! 0) = Some (Finite 0)" by simp
  moreover from out(4) have "day_result.realizedDate (out ! 0) = Some (ymd 2024 1 5)"
    by (simp add: date_of_midnight)
  moreover from out(5) have "daysDiff (out ! 0) = Some 3"
    by (simp add: date_of_midnight ymd_examples)
  ultimately show ?thesis
    using example_day_frames(2) example_day_rows_ok(2) d c out(1) by blast
qed

text \<open>
  A single close of 0.0: the branch of the available data is taken and the
  return is 0.0 / 0.0, which is NaN and not zero.
\<close>

theorem zero_close_return_is_nan:
  "day_frame example_to_datetime [abc_trade] = Inr [abc_row]
   \<and> day_closes zero_close_history 30 abc_row = [(midnight (ymd 2024 1 5), Finite 0)]
   \<and> analyze_trade_momentum_days example_to_datetime zero_close_history [abc_trade] 30
       = Inr [trade_record.extend abc_row
               (day_result.fields (Some NaN) (Some (ymd 2024 1 5)) (Some 3))]"
proof -
  have w: "day_window_ok 30" by (simp add: day_window_ok_def in_bounds_def)
  have "analyze_day_row zero_close_history 30 abc_row
      = Inr (trade_record.extend abc_row
               (day_result.fields (Some NaN) (Some (ymd 2024 1 5)) (Some 3)))"
    unfolding analyze_day_row_dated [OF w example_row_dates(1)]
    by (simp add: zero_close_history_def fetch_closes_def fdiv_def date_of_midnight
        ymd_examples Let_def)
  then show ?thesis
    by (simp add: analyze_days_rows [OF example_day_frames(2)] example_day_frames
        example_day_closes)
qed


end
